theory Spec2Isabelle
  imports Complex_Main
begin

section \<open>JavaScript values and errors\<close>

text \<open>
  The client (\<^verbatim>\<open>src/index.ts\<close>, class \<^verbatim>\<open>KudagonAzureAIClient\<close>) handles values
  of type \<^verbatim>\<open>any\<close> that come from parsed JSON. They are modelled by \<open>json\<close>; a
  JavaScript value that may also be \<^verbatim>\<open>undefined\<close> is a \<open>json option\<close> with
  \<open>None\<close> for \<^verbatim>\<open>undefined\<close>. Numbers are reals: the client never computes with
  them, it only stores them and tests them for truthiness.
\<close>

datatype json =
    JNull
  | JBool bool
  | JNum real
  | JStr string
  | JArr "json list"
  | JObj "(string \<times> json) list"

type_synonym jsval = "json option"

text \<open>JavaScript truthiness (\<^verbatim>\<open>if (v)\<close>, \<^verbatim>\<open>!v\<close>, \<^verbatim>\<open>a || b\<close>).\<close>

fun truthy :: "json \<Rightarrow> bool" where
  "truthy JNull = False"
| "truthy (JBool b) = b"
| "truthy (JNum n) = (n \<noteq> 0)"
| "truthy (JStr s) = (s \<noteq> [])"
| "truthy (JArr xs) = True"
| "truthy (JObj kvs) = True"

definition truthy_val :: "jsval \<Rightarrow> bool" where
  "truthy_val v = (case v of None \<Rightarrow> False | Some j \<Rightarrow> truthy j)"

text \<open>Truthiness of an optional string field: absent and the empty string are falsy.\<close>

definition truthy_str :: "string option \<Rightarrow> bool" where
  "truthy_str v = (case v of None \<Rightarrow> False | Some s \<Rightarrow> s \<noteq> [])"

text \<open>
  A thrown value is an error object with a \<^verbatim>\<open>name\<close> and a \<^verbatim>\<open>message\<close>.
  Every error the client raises itself is \<^verbatim>\<open>new Error(message)\<close>, whose name is
  \<^verbatim>\<open>"Error"\<close>; the kinds the specification names (ValidationError, StateError,
  RunError, TimeoutError, ...) are told apart by the message only.
\<close>

datatype js_error = JsError (err_name: string) (err_message: string)

definition Error :: "string \<Rightarrow> js_error" where
  "Error msg = JsError ''Error'' msg"

definition TypeError :: "string \<Rightarrow> js_error" where
  "TypeError msg = JsError ''TypeError'' msg"

text \<open>
  Property read \<^verbatim>\<open>v.p\<close> on a value that is not \<^verbatim>\<open>undefined\<close>. Reading a property
  of \<^verbatim>\<open>null\<close> throws a TypeError. The client reads only the names id, status,
  last_error, message, data, content, text, value and role, none of which is a built-in
  property of strings, numbers, booleans or arrays, so these yield \<^verbatim>\<open>undefined\<close>.
\<close>

fun get_prop :: "json \<Rightarrow> string \<Rightarrow> js_error + jsval" where
  "get_prop JNull p =
     Inl (TypeError (''Cannot read properties of null (reading '' @ [CHR 0x27] @ p @ [CHR 0x27] @ '')''))"
| "get_prop (JObj kvs) p = Inr (map_of kvs p)"
| "get_prop (JBool b) p = Inr None"
| "get_prop (JNum n) p = Inr None"
| "get_prop (JStr s) p = Inr None"
| "get_prop (JArr xs) p = Inr None"

text \<open>Optional chaining \<^verbatim>\<open>v?.p\<close>: \<^verbatim>\<open>undefined\<close> when \<open>v\<close> is nullish.\<close>

fun opt_prop :: "jsval \<Rightarrow> string \<Rightarrow> jsval" where
  "opt_prop None p = None"
| "opt_prop (Some (JObj kvs)) p = map_of kvs p"
| "opt_prop (Some j) p = None"

text \<open>
  Optional index \<^verbatim>\<open>v?.[0]\<close>: the first element of an array, the first character
  of a string, the property \<^verbatim>\<open>"0"\<close> of an object.
\<close>

fun opt_index0 :: "jsval \<Rightarrow> jsval" where
  "opt_index0 None = None"
| "opt_index0 (Some (JArr xs)) = (case xs of [] \<Rightarrow> None | x # _ \<Rightarrow> Some x)"
| "opt_index0 (Some (JStr s)) = (case s of [] \<Rightarrow> None | ch # _ \<Rightarrow> Some (JStr [ch]))"
| "opt_index0 (Some (JObj kvs)) = map_of kvs ''0''"
| "opt_index0 (Some j) = None"

text \<open>Decimal digits of a number, as a template literal prints an HTTP status.\<close>

fun show_nat :: "nat \<Rightarrow> string" where
  "show_nat n =
     (if n < 10 then [''0123456789'' ! n]
      else show_nat (n div 10) @ [''0123456789'' ! (n mod 10)])"

declare show_nat.simps [simp del]

section \<open>Data model\<close>

text \<open>
  \<^verbatim>\<open>interface Message { role: Role; content: string }\<close>. A field is \<open>None\<close> when the
  object passed at run time lacks it.
\<close>

record message =
  role :: "string option"
  content :: "string option"

text \<open>
  Messages are objects: the client stores references to the caller's objects, and
  \<^verbatim>\<open>_getOrCreateThread\<close> compares them with \<^verbatim>\<open>===\<close>, which is identity. A
  reference is an address into the caller's heap.
\<close>

type_synonym ref = nat

type_synonym heap = "ref \<Rightarrow> message"

datatype FileType = Json | Text

record file_config =
  file_path :: "string option"
  raw_file :: jsval
  file_name :: "string option"
  file_type :: "FileType option"

record generation_options =
  max_tokens :: "real option"
  temperature :: "real option"
  top_p :: "real option"

record internal_file =
  if_path :: string
  if_type :: FileType
  if_content :: json
  if_rawContent :: json

record uploaded_file =
  uf_id :: jsval
  uf_path :: string
  uf_type :: FileType

record completion_message =
  cm_role :: json
  cm_content :: json

record completion_choice =
  choice_index :: nat
  choice_message :: completion_message
  finish_reason :: string

record completion_response =
  cr_id :: jsval
  cr_object :: string
  created :: int
  model :: string
  choices :: "completion_choice list"

record azure_config =
  cfg_endpoint :: string
  cfg_apiKey :: string
  cfg_deploymentName :: string
  cfg_apiVersion :: "string option"
  cfg_timeout :: "real option"
  cfg_initMsg :: "string option"

text \<open>The instance fields of the class; \<open>lastResponse\<close> is \<^verbatim>\<open>_lastResponse\<close>.\<close>

record client =
  endpoint :: string
  apiKey :: string
  deploymentName :: string
  apiVersion :: string
  timeout :: real
  messages :: "ref list"
  files :: "internal_file list"
  options :: generation_options
  assistantId :: jsval
  threadId :: jsval
  initMsg :: string
  lastResponse :: "completion_response option"

section \<open>Construction\<close>

text \<open>
  The constructor and \<^verbatim>\<open>_validateConfig\<close> (lines 118-134).
  \<^verbatim>\<open>endpoint.replace(/\/$/, "")\<close> removes one trailing slash.
\<close>

definition strip_slash :: "string \<Rightarrow> string" where
  "strip_slash s = (if s \<noteq> [] \<and> last s = CHR ''/'' then butlast s else s)"

definition or_default :: "string option \<Rightarrow> string \<Rightarrow> string" where
  "or_default v d = (case v of None \<Rightarrow> d | Some s \<Rightarrow> if s = [] then d else s)"

definition default_options :: generation_options where
  "default_options = \<lparr>max_tokens = Some 4000, temperature = Some 0.7, top_p = None\<rparr>"

definition new_client :: "azure_config \<Rightarrow> js_error + client" where
  "new_client cfg =
     (if cfg_endpoint cfg = [] then Inl (Error ''Endpoint is required'')
      else if cfg_apiKey cfg = [] then Inl (Error ''API key is required'')
      else if cfg_deploymentName cfg = [] then Inl (Error ''Deployment name is required'')
      else Inr \<lparr>endpoint = strip_slash (cfg_endpoint cfg),
                apiKey = cfg_apiKey cfg,
                deploymentName = cfg_deploymentName cfg,
                apiVersion = or_default (cfg_apiVersion cfg) ''2024-08-01-preview'',
                timeout = (case cfg_timeout cfg of None \<Rightarrow> 30000 | Some t \<Rightarrow> t),
                messages = [],
                files = [],
                options = default_options,
                assistantId = Some JNull,
                threadId = Some JNull,
                initMsg = or_default (cfg_initMsg cfg) ''You are a helpful assistant.'',
                lastResponse = None\<rparr>)"

section \<open>Conversation state store\<close>

text \<open>
  The two checks of the loop body of \<^verbatim>\<open>add_message\<close> (lines 193-196), in the
  source's order: \<open>None\<close> when the message passes both.
\<close>

definition check_message :: "message \<Rightarrow> js_error option" where
  "check_message m =
     (if \<not> truthy_str (role m) \<or> \<not> truthy_str (content m)
        then Some (Error ''Each message must have role and content properties'')
      else if role m \<notin> set [Some ''user'', Some ''assistant'', Some ''system'']
        then Some (Error ''Message role must be user, assistant, or system'')
      else None)"

text \<open>
  The \<^verbatim>\<open>for\<close> loop of \<^verbatim>\<open>add_message\<close> (lines 192-198): each element is checked
  and then pushed before the next one is looked at. A \<^verbatim>\<open>throw\<close> leaves the loop with the state
  as it is at that moment, so the result carries the state in both cases.
\<close>

fun add_message_loop :: "heap \<Rightarrow> client \<Rightarrow> ref list \<Rightarrow> (js_error + unit) \<times> client" where
  "add_message_loop h c [] = (Inr (), c)"
| "add_message_loop h c (r # rs) =
     (case check_message (h r) of
        Some e \<Rightarrow> (Inl e, c)
      | None \<Rightarrow> add_message_loop h (c\<lparr>messages := messages c @ [r]\<rparr>) rs)"

text \<open>The argument is \<^verbatim>\<open>Message | Message[]\<close>.\<close>

datatype message_arg = Single ref | Many "ref list"

definition add_message :: "heap \<Rightarrow> client \<Rightarrow> message_arg \<Rightarrow> (js_error + unit) \<times> client" where
  "add_message h c arg =
     add_message_loop h c (case arg of Single r \<Rightarrow> [r] | Many rs \<Rightarrow> rs)"

text \<open>
  The argument of \<^verbatim>\<open>set_options\<close>. For each key: \<open>None\<close> when the object does not
  have the key, \<open>Some v\<close> when it has it, where \<open>v\<close> is \<open>None\<close> for the value
  \<^verbatim>\<open>undefined\<close>.
\<close>

record options_arg =
  arg_max_tokens :: "real option option"
  arg_temperature :: "real option option"
  arg_top_p :: "real option option"

text \<open>
  \<^verbatim>\<open>set_options\<close> (lines 202-205), \<^verbatim>\<open>{ ...this.options, ...options }\<close>: every
  key that the argument has replaces the stored value, also when its value is
  \<^verbatim>\<open>undefined\<close>; the other keys stay.
\<close>

definition merge_field :: "'a option \<Rightarrow> 'a option option \<Rightarrow> 'a option" where
  "merge_field old new = (case new of None \<Rightarrow> old | Some v \<Rightarrow> v)"

definition set_options :: "client \<Rightarrow> options_arg \<Rightarrow> client" where
  "set_options c opts =
     c\<lparr>options :=
         \<lparr>max_tokens = merge_field (max_tokens (options c)) (arg_max_tokens opts),
          temperature = merge_field (temperature (options c)) (arg_temperature opts),
          top_p = merge_field (top_p (options c)) (arg_top_p opts)\<rparr>\<rparr>"

text \<open>\<^verbatim>\<open>clear\<close> (lines 543-549) assigns four fields.\<close>

definition clear :: "client \<Rightarrow> client" where
  "clear c = c\<lparr>messages := [], files := [], assistantId := Some JNull, threadId := Some JNull\<rparr>"

section \<open>Response accessors\<close>

text \<open>\<^verbatim>\<open>raw_response\<close> (lines 636-641) and \<^verbatim>\<open>response\<close> (lines 652-657).\<close>

definition raw_response :: "client \<Rightarrow> js_error + completion_response" where
  "raw_response c =
     (case lastResponse c of
        None \<Rightarrow> Inl (Error ''No response available. Call fetch() first.'')
      | Some r \<Rightarrow> Inr r)"

text \<open>\<^verbatim>\<open>this._lastResponse?.choices?.[0]?.message?.content ?? ""\<close>.\<close>

definition response :: "client \<Rightarrow> js_error + json" where
  "response c =
     (case lastResponse c of
        None \<Rightarrow> Inl (Error ''No response available. Call fetch() first.'')
      | Some r \<Rightarrow>
          Inr (case choices r of
                 [] \<Rightarrow> JStr ''''
               | ch # _ \<Rightarrow>
                   (if cm_content (choice_message ch) = JNull then JStr ''''
                    else cm_content (choice_message ch))))"

section \<open>File staging\<close>

text \<open>
  What \<^verbatim>\<open>add_file\<close> and \<^verbatim>\<open>_uploadFiles\<close> use from the Node.js runtime: the
  file system, the \<^verbatim>\<open>path\<close> module, \<^verbatim>\<open>JSON.parse\<close> (which throws a SyntaxError,
  here \<open>Inl\<close>), \<^verbatim>\<open>JSON.stringify(v, null, 2)\<close>, \<^verbatim>\<open>String.prototype.toLowerCase\<close>
  and the conversion \<^verbatim>\<open>String(v)\<close>. None of them is code of the client; they
  are taken as parameters.
\<close>

record node_env =
  existsSync :: "string \<Rightarrow> bool"
  readFileSync :: "string \<Rightarrow> js_error + string"
  extname :: "string \<Rightarrow> string"
  basename :: "string \<Rightarrow> string"
  toLowerCase :: "string \<Rightarrow> string"
  JSON_parse :: "string \<Rightarrow> js_error + json"
  JSON_stringify :: "json \<Rightarrow> string"
  js_String :: "json \<Rightarrow> string"

text \<open>
  The first part of \<^verbatim>\<open>add_file\<close> (lines 142-166, the \<^verbatim>\<open>if\<close> chain on the
  configuration): the path, the raw content and the file type, or the error thrown
  there.
\<close>

definition resolve_file :: "node_env \<Rightarrow> file_config \<Rightarrow> js_error + (string \<times> json \<times> FileType)" where
  "resolve_file env cfg =
     (case (if truthy_val (raw_file cfg) then raw_file cfg else None) of
        Some raw \<Rightarrow>
          (case (if truthy_str (file_name cfg) then file_name cfg else None) of
             None \<Rightarrow> Inl (Error ''file_name is required when using raw_file'')
           | Some name \<Rightarrow>
               Inr (name, raw, (case file_type cfg of None \<Rightarrow> Text | Some t \<Rightarrow> t)))
      | None \<Rightarrow>
          (case (if truthy_str (file_path cfg) then file_path cfg else None) of
             Some pathStr \<Rightarrow>
               (if \<not> existsSync env pathStr then Inl (Error (''File not found: '' @ pathStr))
                else
                  (case readFileSync env pathStr of
                     Inl e \<Rightarrow> Inl e
                   | Inr s \<Rightarrow>
                       Inr (pathStr, JStr s,
                            (case file_type cfg of
                               Some t \<Rightarrow> t
                             | None \<Rightarrow>
                                 (if toLowerCase env (extname env pathStr) = ''.json''
                                  then Json else Text)))))
           | None \<Rightarrow> Inl (Error ''Either raw_file or file_path must be provided'')))"

text \<open>
  The second part (lines 168-187): the \<^verbatim>\<open>switch\<close> on the type, then the push. A
  string staged as json is parsed; a parse error is rethrown with its message.
\<close>

definition parse_content :: "node_env \<Rightarrow> FileType \<Rightarrow> json \<Rightarrow> js_error + json" where
  "parse_content env t rawContent =
     (case t of
        Json \<Rightarrow>
          (case rawContent of
             JStr s \<Rightarrow>
               (case JSON_parse env s of
                  Inl parseError \<Rightarrow> Inl (Error (''Invalid JSON content: '' @ err_message parseError))
                | Inr v \<Rightarrow> Inr v)
           | JNull \<Rightarrow> Inr rawContent
           | JBool b \<Rightarrow> Inr rawContent
           | JNum n \<Rightarrow> Inr rawContent
           | JArr xs \<Rightarrow> Inr rawContent
           | JObj kvs \<Rightarrow> Inr rawContent)
      | Text \<Rightarrow> Inr rawContent)"

definition add_file :: "node_env \<Rightarrow> client \<Rightarrow> file_config \<Rightarrow> (js_error + unit) \<times> client" where
  "add_file env c cfg =
     (case resolve_file env cfg of
        Inl e \<Rightarrow> (Inl e, c)
      | Inr (pathStr, rawContent, t) \<Rightarrow>
          (case parse_content env t rawContent of
             Inl e \<Rightarrow> (Inl e, c)
           | Inr v \<Rightarrow>
               (Inr (),
                c\<lparr>files := files c @
                   [\<lparr>if_path = pathStr, if_type = t, if_content = v, if_rawContent = rawContent\<rparr>]\<rparr>)))"

section \<open>The remote API\<close>

text \<open>
  A request names the endpoint and carries the part of the payload that varies. The
  URL prefix, the API version and the \<^verbatim>\<open>api-key\<close> header are the same in every
  request and are left out.
  \<^item> \<open>PostFile name content mime\<close>: \<^verbatim>\<open>POST /openai/files\<close>
  \<^item> \<open>PostAssistant model instructions temperature\<close>: \<^verbatim>\<open>POST /openai/assistants\<close>
  \<^item> \<open>PostThread msgs\<close>: \<^verbatim>\<open>POST /openai/threads\<close>
  \<^item> \<open>PostRun threadId assistantId\<close>: \<^verbatim>\<open>POST /openai/threads/{threadId}/runs\<close>
  \<^item> \<open>GetRun threadId runId\<close>: \<^verbatim>\<open>GET /openai/threads/{threadId}/runs/{runId}\<close>
  \<^item> \<open>GetMessages threadId\<close>: \<^verbatim>\<open>GET /openai/threads/{threadId}/messages?limit=1\<close>
  \<^item> \<open>DeleteFile fileId\<close>: \<^verbatim>\<open>DELETE /openai/files/{fileId}\<close>
\<close>

text \<open>
  A message of the thread request: role, content and, when present, the attachments,
  one per uploaded file. An attachment is \<^verbatim>\<open>{file_id, tools: [code_interpreter]}\<close>;
  only its \<^verbatim>\<open>file_id\<close> varies and is kept.
\<close>

record thread_message =
  tm_role :: "string option"
  tm_content :: "string option"
  attachments :: "jsval list option"

datatype request =
    PostFile string string string
  | PostAssistant string "string option" "real option"
  | PostThread "thread_message list"
  | PostRun jsval jsval
  | GetRun jsval jsval
  | GetMessages jsval
  | DeleteFile jsval

text \<open>
  What \<^verbatim>\<open>await _fetch(...)\<close> gives: a rejection, or a response whose \<^verbatim>\<open>text()\<close>
  and \<^verbatim>\<open>json()\<close> each resolve or reject.
\<close>

record response =
  ok :: bool
  status :: nat
  statusText :: string
  resp_text :: "js_error + string"
  resp_json :: "js_error + json"

text \<open>
  The remote answers a request knowing every request sent so far; its argument is the
  list of requests sent, the current one last.
\<close>

type_synonym remote = "request list \<Rightarrow> js_error + response"

text \<open>
  \<^verbatim>\<open>const errorText = await response.text(); throw new Error(`... (${status}): ${errorText}`)\<close>
\<close>

definition http_failure :: "string \<Rightarrow> response \<Rightarrow> js_error" where
  "http_failure what resp =
     (case resp_text resp of
        Inl e \<Rightarrow> e
      | Inr errorText \<Rightarrow> Error (what @ '' ('' @ show_nat (status resp) @ ''): '' @ errorText))"

section \<open>Remote resource orchestrator\<close>

definition content_string :: "node_env \<Rightarrow> internal_file \<Rightarrow> string" where
  "content_string env file =
     (if if_type file = Json
      then (case if_content file of JStr s \<Rightarrow> s | JNull \<Rightarrow> JSON_stringify env JNull
            | JBool b \<Rightarrow> JSON_stringify env (JBool b) | JNum n \<Rightarrow> JSON_stringify env (JNum n)
            | JArr xs \<Rightarrow> JSON_stringify env (JArr xs) | JObj kvs \<Rightarrow> JSON_stringify env (JObj kvs))
      else (case if_rawContent file of JStr s \<Rightarrow> s | JNull \<Rightarrow> js_String env JNull
            | JBool b \<Rightarrow> js_String env (JBool b) | JNum n \<Rightarrow> js_String env (JNum n)
            | JArr xs \<Rightarrow> js_String env (JArr xs) | JObj kvs \<Rightarrow> js_String env (JObj kvs)))"

text \<open>
  The loop of \<^verbatim>\<open>_uploadFiles\<close> (lines 207-258) over \<^verbatim>\<open>this.files\<close>, with
  \<^verbatim>\<open>uploadedFiles\<close> as accumulator. It returns the list of requests sent as well.
\<close>

fun uploadFiles_loop ::
  "node_env \<Rightarrow> remote \<Rightarrow> internal_file list \<Rightarrow> uploaded_file list \<Rightarrow> request list
     \<Rightarrow> (js_error + uploaded_file list) \<times> request list" where
  "uploadFiles_loop env R [] uploadedFiles lg = (Inr uploadedFiles, lg)"
| "uploadFiles_loop env R (file # rest) uploadedFiles lg =
     (let lg1 = lg @ [PostFile (basename env (if_path file)) (content_string env file)
                          (if if_type file = Json then ''application/json'' else ''text/plain'')]
      in case R lg1 of
           Inl e \<Rightarrow> (Inl e, lg1)
         | Inr resp \<Rightarrow>
             (if \<not> ok resp then (Inl (http_failure ''File upload failed'' resp), lg1)
              else
                (case resp_json resp of
                   Inl e \<Rightarrow> (Inl e, lg1)
                 | Inr fileData \<Rightarrow>
                     (case get_prop fileData ''id'' of
                        Inl e \<Rightarrow> (Inl e, lg1)
                      | Inr i \<Rightarrow>
                          uploadFiles_loop env R rest
                            (uploadedFiles @
                               [\<lparr>uf_id = i, uf_path = if_path file, uf_type = if_type file\<rparr>])
                            lg1))))"

definition uploadFiles ::
  "node_env \<Rightarrow> remote \<Rightarrow> client \<Rightarrow> request list \<Rightarrow> (js_error + uploaded_file list) \<times> request list" where
  "uploadFiles env R c lg = uploadFiles_loop env R (files c) [] lg"

text \<open>
  \<^verbatim>\<open>_getOrCreateAssistant\<close> (lines 260-301). The instructions are the content of
  the first system message, or a fixed text.
\<close>

definition instructions :: "heap \<Rightarrow> client \<Rightarrow> string option" where
  "instructions h c =
     (case find (\<lambda>m. role (h m) = Some ''system'') (messages c) of
        Some systemMessage \<Rightarrow> content (h systemMessage)
      | None \<Rightarrow>
          Some ''You are a helpful assistant that can analyze files and answer questions.'')"

definition getOrCreateAssistant ::
  "remote \<Rightarrow> heap \<Rightarrow> client \<Rightarrow> request list \<Rightarrow> (js_error + jsval) \<times> client \<times> request list" where
  "getOrCreateAssistant R h c lg =
     (if truthy_val (assistantId c) then (Inr (assistantId c), c, lg)
      else
        (let lg1 = lg @ [PostAssistant (deploymentName c) (instructions h c)
                             (temperature (options c))]
         in case R lg1 of
              Inl e \<Rightarrow> (Inl e, c, lg1)
            | Inr resp \<Rightarrow>
                (if \<not> ok resp then (Inl (http_failure ''Assistant creation failed'' resp), c, lg1)
                 else
                   (case resp_json resp of
                      Inl e \<Rightarrow> (Inl e, c, lg1)
                    | Inr assistant \<Rightarrow>
                        (case get_prop assistant ''id'' of
                           Inl e \<Rightarrow> (Inl e, c, lg1)
                         | Inr i \<Rightarrow> (Inr i, c\<lparr>assistantId := i\<rparr>, lg1))))))"

text \<open>
  The message list of \<^verbatim>\<open>_getOrCreateThread\<close> (lines 311-326): \<^verbatim>\<open>filter\<close> then
  \<^verbatim>\<open>map\<close>. The
  test \<^verbatim>\<open>msg === this.messages.find((m) => m.role === "user")\<close> compares object
  identities, here references.
\<close>

definition threadMessages :: "heap \<Rightarrow> client \<Rightarrow> uploaded_file list \<Rightarrow> thread_message list" where
  "threadMessages h c uploadedFiles =
     map (\<lambda>msg.
            \<lparr>tm_role = role (h msg),
             tm_content = content (h msg),
             attachments =
               (if role (h msg) = Some ''user'' \<and> uploadedFiles \<noteq> [] \<and>
                   Some msg = find (\<lambda>m. role (h m) = Some ''user'') (messages c)
                then Some (map uf_id uploadedFiles) else None)\<rparr>)
         (filter (\<lambda>msg. role (h msg) \<noteq> Some ''system'') (messages c))"

text \<open>\<^verbatim>\<open>_getOrCreateThread\<close> (lines 303-352).\<close>

definition getOrCreateThread ::
  "remote \<Rightarrow> heap \<Rightarrow> client \<Rightarrow> uploaded_file list \<Rightarrow> request list
     \<Rightarrow> (js_error + jsval) \<times> client \<times> request list" where
  "getOrCreateThread R h c uploadedFiles lg =
     (if truthy_val (threadId c) then (Inr (threadId c), c, lg)
      else
        (let lg1 = lg @ [PostThread (threadMessages h c uploadedFiles)]
         in case R lg1 of
              Inl e \<Rightarrow> (Inl e, c, lg1)
            | Inr resp \<Rightarrow>
                (if \<not> ok resp then (Inl (http_failure ''Thread creation failed'' resp), c, lg1)
                 else
                   (case resp_json resp of
                      Inl e \<Rightarrow> (Inl e, c, lg1)
                    | Inr thread \<Rightarrow>
                        (case get_prop thread ''id'' of
                           Inl e \<Rightarrow> (Inl e, c, lg1)
                         | Inr i \<Rightarrow> (Inr i, c\<lparr>threadId := i\<rparr>, lg1))))))"

text \<open>
  The error thrown for a terminal failure status:
  \<^verbatim>\<open>`Run ${run.status}: ${run.last_error?.message || "Unknown error"}`\<close>.
\<close>

definition js_string :: "node_env \<Rightarrow> json \<Rightarrow> string" where
  "js_string env v =
     (case v of JStr s \<Rightarrow> s | JNull \<Rightarrow> js_String env v | JBool b \<Rightarrow> js_String env v
      | JNum n \<Rightarrow> js_String env v | JArr xs \<Rightarrow> js_String env v | JObj kvs \<Rightarrow> js_String env v)"

definition run_error :: "node_env \<Rightarrow> json \<Rightarrow> string \<Rightarrow> js_error" where
  "run_error env run st =
     Error (''Run '' @ st @ '': '' @
            (case opt_prop (opt_prop (Some run) ''last_error'') ''message'' of
               None \<Rightarrow> ''Unknown error''
             | Some m \<Rightarrow> if truthy m then js_string env m else ''Unknown error''))"

definition timeout_error :: js_error where
  "timeout_error = Error ''Run timed out after 5 minutes''"

definition maxAttempts :: nat where
  "maxAttempts = 60"

text \<open>
  The \<^verbatim>\<open>while\<close> loop of \<^verbatim>\<open>_waitForRunCompletion\<close> (lines 382-415), with
  \<^verbatim>\<open>attempts\<close> as argument. The five seconds of waiting between two polls are not modelled.
\<close>

function waitForRunCompletion_loop ::
  "node_env \<Rightarrow> remote \<Rightarrow> client \<Rightarrow> jsval \<Rightarrow> nat \<Rightarrow> request list \<Rightarrow> (js_error + json) \<times> request list" where
  "waitForRunCompletion_loop env R c runId attempts lg =
     (if attempts < maxAttempts then
        (let lg1 = lg @ [GetRun (threadId c) runId]
         in case R lg1 of
              Inl e \<Rightarrow> (Inl e, lg1)
            | Inr resp \<Rightarrow>
                (if \<not> ok resp then (Inl (Error (''Status check failed: '' @ statusText resp)), lg1)
                 else
                   (case resp_json resp of
                      Inl e \<Rightarrow> (Inl e, lg1)
                    | Inr run \<Rightarrow>
                        (case get_prop run ''status'' of
                           Inl e \<Rightarrow> (Inl e, lg1)
                         | Inr st \<Rightarrow>
                             (if st = Some (JStr ''completed'') then (Inr run, lg1)
                              else if st = Some (JStr ''failed'') then (Inl (run_error env run ''failed''), lg1)
                              else if st = Some (JStr ''cancelled'') then (Inl (run_error env run ''cancelled''), lg1)
                              else if st = Some (JStr ''expired'') then (Inl (run_error env run ''expired''), lg1)
                              else waitForRunCompletion_loop env R c runId (attempts + 1) lg1)))))
      else (Inl timeout_error, lg))"
  by pat_completeness auto
termination
  by (relation "measure (\<lambda>(env, R, c, runId, attempts, lg). maxAttempts - attempts)") auto

declare waitForRunCompletion_loop.simps [simp del]

definition waitForRunCompletion ::
  "node_env \<Rightarrow> remote \<Rightarrow> client \<Rightarrow> jsval \<Rightarrow> request list \<Rightarrow> (js_error + json) \<times> request list" where
  "waitForRunCompletion env R c runId lg = waitForRunCompletion_loop env R c runId 0 lg"

text \<open>\<^verbatim>\<open>_runAssistant\<close> (lines 354-380).\<close>

definition runAssistant ::
  "node_env \<Rightarrow> remote \<Rightarrow> client \<Rightarrow> request list \<Rightarrow> (js_error + json) \<times> request list" where
  "runAssistant env R c lg =
     (let lg1 = lg @ [PostRun (threadId c) (assistantId c)]
      in case R lg1 of
           Inl e \<Rightarrow> (Inl e, lg1)
         | Inr resp \<Rightarrow>
             (if \<not> ok resp then (Inl (http_failure ''Run creation failed'' resp), lg1)
              else
                (case resp_json resp of
                   Inl e \<Rightarrow> (Inl e, lg1)
                 | Inr run \<Rightarrow>
                     (case get_prop run ''id'' of
                        Inl e \<Rightarrow> (Inl e, lg1)
                      | Inr i \<Rightarrow> waitForRunCompletion env R c i lg1))))"

text \<open>\<^verbatim>\<open>_getMessages\<close> (lines 417-433) returns \<^verbatim>\<open>messages.data?.[0]\<close>.\<close>

definition getMessages ::
  "remote \<Rightarrow> client \<Rightarrow> request list \<Rightarrow> (js_error + jsval) \<times> request list" where
  "getMessages R c lg =
     (let lg1 = lg @ [GetMessages (threadId c)]
      in case R lg1 of
           Inl e \<Rightarrow> (Inl e, lg1)
         | Inr resp \<Rightarrow>
             (if \<not> ok resp then (Inl (Error (''Failed to get messages: '' @ statusText resp)), lg1)
              else
                (case resp_json resp of
                   Inl e \<Rightarrow> (Inl e, lg1)
                 | Inr msgs \<Rightarrow>
                     (case get_prop msgs ''data'' of
                        Inl e \<Rightarrow> (Inl e, lg1)
                      | Inr d \<Rightarrow> (Inr (opt_index0 d), lg1)))))"

section \<open>Response materializer\<close>

text \<open>\<^verbatim>\<open>a ?? b\<close> on a value that may be undefined, with a default that is not.\<close>

definition coalesce :: "jsval \<Rightarrow> json \<Rightarrow> json" where
  "coalesce v d = (case v of None \<Rightarrow> d | Some j \<Rightarrow> if j = JNull then d else j)"

text \<open>
  \<^verbatim>\<open>responseMessage?.content?.[0]?.text?.value ?? responseMessage?.content ?? ""\<close>
\<close>

definition contentValue :: "jsval \<Rightarrow> json" where
  "contentValue responseMessage =
     coalesce
       (opt_prop (opt_prop (opt_index0 (opt_prop responseMessage ''content'')) ''text'') ''value'')
       (coalesce (opt_prop responseMessage ''content'') (JStr []))"

text \<open>
  \<^verbatim>\<open>formattedResponse\<close> (lines 459-474), built from the polled run, the time and
  the fetched message; \<^verbatim>\<open>run.id\<close> is a plain property read.
\<close>

definition formattedResponse ::
  "client \<Rightarrow> int \<Rightarrow> json \<Rightarrow> jsval \<Rightarrow> js_error + completion_response" where
  "formattedResponse c now run responseMessage =
     (case get_prop run ''id'' of
        Inl e \<Rightarrow> Inl e
      | Inr i \<Rightarrow>
          Inr \<lparr>cr_id = i,
               cr_object = ''chat.completion'',
               created = now,
               model = deploymentName c,
               choices =
                 [\<lparr>choice_index = 0,
                   choice_message =
                     \<lparr>cm_role = coalesce (opt_prop responseMessage ''role'') (JStr ''assistant''),
                      cm_content = contentValue responseMessage\<rparr>,
                   finish_reason = ''stop''\<rparr>]\<rparr>)"

section \<open>The run\<close>

text \<open>
  The body of the \<^verbatim>\<open>try\<close> block of \<^verbatim>\<open>fetch\<close> (lines 437-486). \<open>now\<close> is
  \<^verbatim>\<open>Math.floor(Date.now() / 1000)\<close> at the time of the call. The clean-up at the
  end sends one delete request per uploaded file and drops the outcome.
\<close>

definition fetch_try ::
  "node_env \<Rightarrow> remote \<Rightarrow> heap \<Rightarrow> int \<Rightarrow> client \<Rightarrow> request list
     \<Rightarrow> (js_error + unit) \<times> client \<times> request list" where
  "fetch_try env R h now c lg =
     (if messages c = [] \<and> files c = [] then
        (Inl (Error ''No messages or files to send. Use add_message() or add_file() first.''), c, lg)
      else
        (case (if files c \<noteq> [] then uploadFiles env R c lg else (Inr [], lg)) of
           (Inl e, lg1) \<Rightarrow> (Inl e, c, lg1)
         | (Inr uploadedFiles, lg1) \<Rightarrow>
             (case getOrCreateAssistant R h c lg1 of
                (Inl e, c2, lg2) \<Rightarrow> (Inl e, c2, lg2)
              | (Inr a, c2, lg2) \<Rightarrow>
                  (case getOrCreateThread R h c2 uploadedFiles lg2 of
                     (Inl e, c3, lg3) \<Rightarrow> (Inl e, c3, lg3)
                   | (Inr t, c3, lg3) \<Rightarrow>
                       (case runAssistant env R c3 lg3 of
                          (Inl e, lg4) \<Rightarrow> (Inl e, c3, lg4)
                        | (Inr run, lg4) \<Rightarrow>
                            (case getMessages R c3 lg4 of
                               (Inl e, lg5) \<Rightarrow> (Inl e, c3, lg5)
                             | (Inr responseMessage, lg5) \<Rightarrow>
                                 (case formattedResponse c3 now run responseMessage of
                                    Inl e \<Rightarrow> (Inl e, c3, lg5)
                                  | Inr r \<Rightarrow>
                                      (Inr (), c3\<lparr>lastResponse := Some r\<rparr>,
                                       lg5 @ map (\<lambda>f. DeleteFile (uf_id f)) uploadedFiles))))))))"

text \<open>
  The \<^verbatim>\<open>catch\<close> block (lines 487-494): an AbortError is replaced, any other error
  rethrown. The template literal prints \<^verbatim>\<open>this.timeout\<close> as JavaScript prints a
  number.
\<close>

definition fetch ::
  "node_env \<Rightarrow> remote \<Rightarrow> heap \<Rightarrow> int \<Rightarrow> client \<Rightarrow> request list
     \<Rightarrow> (js_error + unit) \<times> client \<times> request list" where
  "fetch env R h now c lg =
     (case fetch_try env R h now c lg of
        (Inl e, c', lg') \<Rightarrow>
          (Inl (if err_name e = ''AbortError''
                then Error (''Request timeout after '' @ js_String env (JNum (timeout c')) @
                            ''ms. Try increasing the timeout or check your connection.'')
                else e), c', lg')
      | (Inr u, c', lg') \<Rightarrow> (Inr u, c', lg'))"

section \<open>Sequences of calls\<close>

text \<open>
  A caller's use of one client: a sequence of method calls, each with the heap of
  message objects as it is at that call. A call that throws leaves the state the
  method had reached; the caller goes on with the next call. The flag records whether
  some \<^verbatim>\<open>fetch\<close> has returned without an error.
\<close>

datatype call =
    AddMessage heap message_arg
  | AddFile file_config
  | SetOptions options_arg
  | Fetch heap int
  | Clear

fun run_call ::
  "node_env \<Rightarrow> remote \<Rightarrow> call \<Rightarrow> client \<times> request list \<times> bool \<Rightarrow> client \<times> request list \<times> bool" where
  "run_call env R (AddMessage h arg) (c, lg, s) = (snd (add_message h c arg), lg, s)"
| "run_call env R (AddFile cfg) (c, lg, s) = (snd (add_file env c cfg), lg, s)"
| "run_call env R (SetOptions opts) (c, lg, s) = (set_options c opts, lg, s)"
| "run_call env R (Fetch h now) (c, lg, s) =
     (case fetch env R h now c lg of
        (Inl e, c', lg') \<Rightarrow> (c', lg', s)
      | (Inr u, c', lg') \<Rightarrow> (c', lg', True))"
| "run_call env R Clear (c, lg, s) = (clear c, lg, s)"

fun run_calls ::
  "node_env \<Rightarrow> remote \<Rightarrow> call list \<Rightarrow> client \<times> request list \<times> bool \<Rightarrow> client \<times> request list \<times> bool" where
  "run_calls env R [] st = st"
| "run_calls env R (x # xs) st = run_calls env R xs (run_call env R x st)"

section \<open>Concrete inputs\<close>

text \<open>
  A heap with a system message, a user message, a message with an unknown role and a
  user message with empty content.
\<close>

definition demo_heap :: heap where
  "demo_heap r =
     (if r = 0 then \<lparr>role = Some ''system'', content = Some ''Be brief.''\<rparr>
      else if r = 1 then \<lparr>role = Some ''user'', content = Some ''What is 6 times 7?''\<rparr>
      else if r = 2 then \<lparr>role = Some ''robot'', content = Some ''beep''\<rparr>
      else if r = 3 then \<lparr>role = Some ''user'', content = Some []\<rparr>
      else \<lparr>role = Some ''assistant'', content = Some ''ok''\<rparr>)"

definition demo_client :: client where
  "demo_client =
     \<lparr>endpoint = ''https://example.openai.azure.com'',
      apiKey = ''key'',
      deploymentName = ''gpt-4o-mini'',
      apiVersion = ''2024-08-01-preview'',
      timeout = 30000,
      messages = [],
      files = [],
      options = default_options,
      assistantId = Some JNull,
      threadId = Some JNull,
      initMsg = ''You are a helpful assistant.'',
      lastResponse = None\<rparr>"

definition demo_env :: node_env where
  "demo_env =
     \<lparr>existsSync = (\<lambda>p. p = ''data.json''),
      readFileSync = (\<lambda>p. if p = ''data.json'' then Inr ''{oops'' else Inl (Error ''ENOENT'')),
      extname = (\<lambda>p. if p = ''data.json'' then ''.json'' else []),
      basename = (\<lambda>p. p),
      toLowerCase = (\<lambda>s. s),
      JSON_parse =
        (\<lambda>s. if s = ''{}'' then Inr (JObj [])
             else if s = [] then Inl (JsError ''SyntaxError'' ''Unexpected end of JSON input'')
             else Inl (JsError ''SyntaxError'' ''Unexpected token'')),
      JSON_stringify = (\<lambda>v. ''{}''),
      js_String = (\<lambda>v. ''[object Object]'')\<rparr>"

definition ok_json :: "json \<Rightarrow> js_error + response" where
  "ok_json v =
     Inr \<lparr>ok = True, status = 200, statusText = ''OK'', resp_text = Inr [], resp_json = Inr v\<rparr>"

text \<open>A remote that answers every request with success; the run is completed at the first poll.\<close>

definition demo_answer :: "request \<Rightarrow> js_error + response" where
  "demo_answer req =
     (case req of
        PostFile n s m \<Rightarrow> ok_json (JObj [(''id'', JStr ''file-1'')])
      | PostAssistant m i t \<Rightarrow> ok_json (JObj [(''id'', JStr ''asst-1'')])
      | PostThread ms \<Rightarrow> ok_json (JObj [(''id'', JStr ''thread-1'')])
      | PostRun t a \<Rightarrow> ok_json (JObj [(''id'', JStr ''run-1''), (''status'', JStr ''queued'')])
      | GetRun t r \<Rightarrow> ok_json (JObj [(''id'', JStr ''run-1''), (''status'', JStr ''completed'')])
      | GetMessages t \<Rightarrow>
          ok_json (JObj [(''data'',
            JArr [JObj [(''role'', JStr ''assistant''),
                        (''content'', JArr [JObj [(''text'', JObj [(''value'', JStr ''42'')])]])]])])
      | DeleteFile f \<Rightarrow> ok_json (JObj []))"

definition demo_remote :: remote where
  "demo_remote lg = (case rev lg of [] \<Rightarrow> Inl (Error ''no request'') | req # _ \<Rightarrow> demo_answer req)"

text \<open>The same remote, except that every poll reports \<^verbatim>\<open>in_progress\<close>.\<close>

definition busy_remote :: remote where
  "busy_remote lg =
     (case rev lg of
        [] \<Rightarrow> Inl (Error ''no request'')
      | req # _ \<Rightarrow>
          (case req of
             GetRun t r \<Rightarrow> ok_json (JObj [(''id'', JStr ''run-1''), (''status'', JStr ''in_progress'')])
           | PostFile n s m \<Rightarrow> demo_answer req
           | PostAssistant m i t \<Rightarrow> demo_answer req
           | PostThread ms \<Rightarrow> demo_answer req
           | PostRun t a \<Rightarrow> demo_answer req
           | GetMessages t \<Rightarrow> demo_answer req
           | DeleteFile f \<Rightarrow> demo_answer req))"

text \<open>The same remote, except that the message list cannot be fetched.\<close>

definition no_messages_remote :: remote where
  "no_messages_remote lg =
     (case rev lg of
        [] \<Rightarrow> Inl (Error ''no request'')
      | req # _ \<Rightarrow>
          (case req of
             GetMessages t \<Rightarrow>
               Inr \<lparr>ok = False, status = 500, statusText = ''Internal Server Error'',
                    resp_text = Inr ''down'', resp_json = Inl (JsError ''SyntaxError'' ''Unexpected token'')\<rparr>
           | PostFile n s m \<Rightarrow> demo_answer req
           | PostAssistant m i t \<Rightarrow> demo_answer req
           | PostThread ms \<Rightarrow> demo_answer req
           | PostRun t a \<Rightarrow> demo_answer req
           | GetRun t r \<Rightarrow> demo_answer req
           | DeleteFile f \<Rightarrow> demo_answer req))"

definition demo_response :: completion_response where
  "demo_response =
     \<lparr>cr_id = Some (JStr ''run-0''),
      cr_object = ''chat.completion'',
      created = 1700000000,
      model = ''gpt-4o-mini'',
      choices =
        [\<lparr>choice_index = 0,
          choice_message = \<lparr>cm_role = JStr ''assistant'', cm_content = JStr ''earlier reply''\<rparr>,
          finish_reason = ''stop''\<rparr>]\<rparr>"

section \<open>Predicates on requests and answers\<close>

definition creates_assistant :: "request \<Rightarrow> bool" where
  "creates_assistant q =
     (case q of
        PostAssistant m i t \<Rightarrow> True
      | PostFile n s m \<Rightarrow> False
      | PostThread ms \<Rightarrow> False
      | PostRun t a \<Rightarrow> False
      | GetRun t r \<Rightarrow> False
      | GetMessages t \<Rightarrow> False
      | DeleteFile f \<Rightarrow> False)"

definition creates_thread :: "request \<Rightarrow> bool" where
  "creates_thread q =
     (case q of
        PostThread ms \<Rightarrow> True
      | PostFile n s m \<Rightarrow> False
      | PostAssistant m i t \<Rightarrow> False
      | PostRun t a \<Rightarrow> False
      | GetRun t r \<Rightarrow> False
      | GetMessages t \<Rightarrow> False
      | DeleteFile f \<Rightarrow> False)"

text \<open>
  The answer to a status poll is a success response whose \<^verbatim>\<open>status\<close> is none of
  \<^verbatim>\<open>completed\<close>, \<^verbatim>\<open>failed\<close>, \<^verbatim>\<open>cancelled\<close>, \<^verbatim>\<open>expired\<close>.
\<close>

definition reports_non_terminal :: "js_error + response \<Rightarrow> bool" where
  "reports_non_terminal a =
     (case a of
        Inl e \<Rightarrow> False
      | Inr resp \<Rightarrow>
          ok resp \<and>
          (case resp_json resp of
             Inl e \<Rightarrow> False
           | Inr run \<Rightarrow>
               (case get_prop run ''status'' of
                  Inl e \<Rightarrow> False
                | Inr st \<Rightarrow>
                    st \<notin> set [Some (JStr ''completed''), Some (JStr ''failed''),
                               Some (JStr ''cancelled''), Some (JStr ''expired'')])))"

text \<open>The answer to a status poll is a success response with body \<open>run\<close> and status \<open>st\<close>.\<close>

definition reports_status :: "js_error + response \<Rightarrow> json \<Rightarrow> string \<Rightarrow> bool" where
  "reports_status a run st =
     (case a of
        Inl e \<Rightarrow> False
      | Inr resp \<Rightarrow>
          ok resp \<and> resp_json resp = Inr run \<and> get_prop run ''status'' = Inr (Some (JStr st)))"

text \<open>A remote whose run has failed with the message \<^verbatim>\<open>boom\<close>.\<close>

definition failed_remote :: remote where
  "failed_remote lg =
     ok_json (JObj [(''id'', JStr ''run-1''), (''status'', JStr ''failed''),
                    (''last_error'', JObj [(''message'', JStr ''boom'')])])"

text \<open>The requests a call has sent: those after the ones sent before it.\<close>

definition requests_sent :: "request list \<Rightarrow> request list \<Rightarrow> request list" where
  "requests_sent before after = drop (length before) after"

text \<open>
  Between two states of the request log only requests that satisfy \<open>P\<close> were sent, and
  none of the earlier ones was dropped.
\<close>

definition sends_only :: "(request \<Rightarrow> bool) \<Rightarrow> request list \<Rightarrow> request list \<Rightarrow> bool" where
  "sends_only P before after =
     (take (length before) after = before \<and> list_all P (requests_sent before after))"

definition deletes_file :: "request \<Rightarrow> bool" where
  "deletes_file q =
     (case q of
        DeleteFile f \<Rightarrow> True
      | PostFile n s m \<Rightarrow> False
      | PostAssistant m i t \<Rightarrow> False
      | PostThread ms \<Rightarrow> False
      | PostRun t a \<Rightarrow> False
      | GetRun t r \<Rightarrow> False
      | GetMessages t \<Rightarrow> False)"

definition submits_run :: "request \<Rightarrow> bool" where
  "submits_run q =
     (case q of
        PostRun t a \<Rightarrow> True
      | PostFile n s m \<Rightarrow> False
      | PostAssistant m i t \<Rightarrow> False
      | PostThread ms \<Rightarrow> False
      | GetRun t r \<Rightarrow> False
      | GetMessages t \<Rightarrow> False
      | DeleteFile f \<Rightarrow> False)"

text \<open>The client after \<^verbatim>\<open>add_message([system, user])\<close> on a fresh client.\<close>

definition demo_started :: client where
  "demo_started = snd (add_message demo_heap demo_client (Many [0, 1]))"

text \<open>The result that a run of \<open>demo_started\<close> against \<open>demo_remote\<close> stores.\<close>

definition demo_result :: completion_response where
  "demo_result =
     \<lparr>cr_id = Some (JStr ''run-1''),
      cr_object = ''chat.completion'',
      created = 1700000000,
      model = ''gpt-4o-mini'',
      choices =
        [\<lparr>choice_index = 0,
          choice_message = \<lparr>cm_role = JStr ''assistant'', cm_content = JStr ''42''\<rparr>,
          finish_reason = ''stop''\<rparr>]\<rparr>"

text \<open>A raw file of kind json whose content does not parse.\<close>

definition bad_json_config :: file_config where
  "bad_json_config =
     \<lparr>file_path = None, raw_file = Some (JStr ''{oops''), file_name = Some ''a.json'',
      file_type = Some Json\<rparr>"

text \<open>A configuration of kind json whose \<^verbatim>\<open>raw_file\<close> is the empty string.\<close>

definition empty_raw_config :: file_config where
  "empty_raw_config =
     \<lparr>file_path = None, raw_file = Some (JStr []), file_name = Some ''a.json'',
      file_type = Some Json\<rparr>"

text \<open>The file \<^verbatim>\<open>data.json\<close> of \<open>demo_env\<close>, whose content does not parse.\<close>

definition path_json_config :: file_config where
  "path_json_config =
     \<lparr>file_path = Some ''data.json'', raw_file = None, file_name = None, file_type = None\<rparr>"

text \<open>A raw text file.\<close>

definition notes_config :: file_config where
  "notes_config =
     \<lparr>file_path = None, raw_file = Some (JStr ''some notes''), file_name = Some ''notes.txt'',
      file_type = None\<rparr>"

text \<open>
  The client after \<^verbatim>\<open>add_message([m, m])\<close>, with the same user message object
  \<open>m\<close> twice, and \<^verbatim>\<open>add_file\<close> of the text file.
\<close>

definition repeated_client :: client where
  "repeated_client =
     snd (add_file demo_env (snd (add_message demo_heap demo_client (Many [1, 1]))) notes_config)"

definition demo_config :: azure_config where
  "demo_config =
     \<lparr>cfg_endpoint = ''https://example.openai.azure.com/'',
      cfg_apiKey = ''key'',
      cfg_deploymentName = ''gpt-4o-mini'',
      cfg_apiVersion = None,
      cfg_timeout = None,
      cfg_initMsg = None\<rparr>"

text \<open>
  A remote like \<open>demo_remote\<close>, except that the assistant and the thread it creates
  get the empty string as identifier.
\<close>

definition blank_remote :: remote where
  "blank_remote lg =
     (case rev lg of
        [] \<Rightarrow> Inl (Error ''no request'')
      | req # _ \<Rightarrow>
          (case req of
             PostAssistant m i t \<Rightarrow> ok_json (JObj [(''id'', JStr [])])
           | PostThread ms \<Rightarrow> ok_json (JObj [(''id'', JStr [])])
           | PostFile n s m \<Rightarrow> demo_answer req
           | PostRun t a \<Rightarrow> demo_answer req
           | GetRun t r \<Rightarrow> demo_answer req
           | GetMessages t \<Rightarrow> demo_answer req
           | DeleteFile f \<Rightarrow> demo_answer req))"

text \<open>Two runs in a row against \<open>blank_remote\<close>, with no \<^verbatim>\<open>clear()\<close> in between.\<close>

definition blank_first :: "(js_error + unit) \<times> client \<times> request list" where
  "blank_first = fetch demo_env blank_remote demo_heap 1700000000 demo_started []"

definition blank_second :: "(js_error + unit) \<times> client \<times> request list" where
  "blank_second =
     fetch demo_env blank_remote demo_heap 1700000060 (fst (snd blank_first)) (snd (snd blank_first))"

text \<open>Two runs in a row against \<open>demo_remote\<close>.\<close>

definition demo_first :: "(js_error + unit) \<times> client \<times> request list" where
  "demo_first = fetch demo_env demo_remote demo_heap 1700000000 demo_started []"

definition demo_second :: "(js_error + unit) \<times> client \<times> request list" where
  "demo_second =
     fetch demo_env demo_remote demo_heap 1700000060 (fst (snd demo_first)) (snd (snd demo_first))"

text \<open>A run that fails at the message fetch, on a client that holds an earlier result.\<close>

definition demo_failing :: "(js_error + unit) \<times> client \<times> request list" where
  "demo_failing =
     fetch demo_env no_messages_remote demo_heap 1700000060
       (demo_started\<lparr>lastResponse := Some demo_response\<rparr>) []"

text \<open>The run of the client that holds the same message object twice, and a file.\<close>

definition repeated_run :: "(js_error + unit) \<times> client \<times> request list" where
  "repeated_run = fetch demo_env demo_remote demo_heap 1700000000 repeated_client []"

section \<open>Concrete runs\<close>

text \<open>The equations that evaluate a run on a concrete client and remote.\<close>

lemmas run_defs =
  fetch_def fetch_try_def uploadFiles_def getOrCreateAssistant_def getOrCreateThread_def
  runAssistant_def getMessages_def formattedResponse_def
  contentValue_def coalesce_def instructions_def threadMessages_def truthy_val_def
  content_string_def http_failure_def Let_def

lemmas orchestrator_defs =
  run_defs waitForRunCompletion_def maxAttempts_def waitForRunCompletion_loop.simps

lemmas demo_defs =
  demo_client_def demo_heap_def demo_remote_def demo_answer_def demo_env_def ok_json_def
  default_options_def add_message_def check_message_def truthy_str_def

lemma demo_started_value: "demo_started = demo_client\<lparr>messages := [0, 1]\<rparr>"
  by (simp add: demo_started_def demo_defs)

lemma demo_first_value:
  "demo_first =
     (Inr (),
      demo_client\<lparr>messages := [0, 1], assistantId := Some (JStr ''asst-1''),
                  threadId := Some (JStr ''thread-1''), lastResponse := Some demo_result\<rparr>,
      [PostAssistant ''gpt-4o-mini'' (Some ''Be brief.'') (Some 0.7),
       PostThread [\<lparr>tm_role = Some ''user'', tm_content = Some ''What is 6 times 7?'',
                    attachments = None\<rparr>],
       PostRun (Some (JStr ''thread-1'')) (Some (JStr ''asst-1'')),
       GetRun (Some (JStr ''thread-1'')) (Some (JStr ''run-1'')),
       GetMessages (Some (JStr ''thread-1''))])"
  by (simp add: demo_first_def demo_started_value orchestrator_defs demo_defs demo_result_def)

lemma demo_second_value:
  "demo_second =
     (Inr (),
      demo_client\<lparr>messages := [0, 1], assistantId := Some (JStr ''asst-1''),
                  threadId := Some (JStr ''thread-1''),
                  lastResponse := Some (demo_result\<lparr>created := 1700000060\<rparr>)\<rparr>,
      snd (snd demo_first) @
      [PostRun (Some (JStr ''thread-1'')) (Some (JStr ''asst-1'')),
       GetRun (Some (JStr ''thread-1'')) (Some (JStr ''run-1'')),
       GetMessages (Some (JStr ''thread-1''))])"
  by (simp add: demo_second_def demo_first_value orchestrator_defs demo_defs demo_result_def)

lemma blank_first_value:
  "blank_first =
     (Inr (),
      demo_client\<lparr>messages := [0, 1], assistantId := Some (JStr []),
                  threadId := Some (JStr []), lastResponse := Some demo_result\<rparr>,
      [PostAssistant ''gpt-4o-mini'' (Some ''Be brief.'') (Some 0.7),
       PostThread [\<lparr>tm_role = Some ''user'', tm_content = Some ''What is 6 times 7?'',
                    attachments = None\<rparr>],
       PostRun (Some (JStr [])) (Some (JStr [])),
       GetRun (Some (JStr [])) (Some (JStr ''run-1'')),
       GetMessages (Some (JStr []))])"
  by (simp add: blank_first_def blank_remote_def demo_started_value orchestrator_defs demo_defs
        demo_result_def)

lemma blank_second_value:
  "blank_second =
     (Inr (),
      demo_client\<lparr>messages := [0, 1], assistantId := Some (JStr []),
                  threadId := Some (JStr []),
                  lastResponse := Some (demo_result\<lparr>created := 1700000060\<rparr>)\<rparr>,
      snd (snd blank_first) @
      [PostAssistant ''gpt-4o-mini'' (Some ''Be brief.'') (Some 0.7),
       PostThread [\<lparr>tm_role = Some ''user'', tm_content = Some ''What is 6 times 7?'',
                    attachments = None\<rparr>],
       PostRun (Some (JStr [])) (Some (JStr [])),
       GetRun (Some (JStr [])) (Some (JStr ''run-1'')),
       GetMessages (Some (JStr []))])"
  by (simp add: blank_second_def blank_first_value blank_remote_def orchestrator_defs demo_defs
        demo_result_def)

lemma demo_failing_value:
  "demo_failing =
     (Inl (Error ''Failed to get messages: Internal Server Error''),
      demo_client\<lparr>messages := [0, 1], assistantId := Some (JStr ''asst-1''),
                  threadId := Some (JStr ''thread-1''), lastResponse := Some demo_response\<rparr>,
      [PostAssistant ''gpt-4o-mini'' (Some ''Be brief.'') (Some 0.7),
       PostThread [\<lparr>tm_role = Some ''user'', tm_content = Some ''What is 6 times 7?'',
                    attachments = None\<rparr>],
       PostRun (Some (JStr ''thread-1'')) (Some (JStr ''asst-1'')),
       GetRun (Some (JStr ''thread-1'')) (Some (JStr ''run-1'')),
       GetMessages (Some (JStr ''thread-1''))])"
  by (simp add: demo_failing_def no_messages_remote_def demo_started_value orchestrator_defs
        demo_defs Error_def)

lemma repeated_client_value:
  "repeated_client =
     demo_client\<lparr>messages := [1, 1],
                 files := [\<lparr>if_path = ''notes.txt'', if_type = Text,
                            if_content = JStr ''some notes'',
                            if_rawContent = JStr ''some notes''\<rparr>]\<rparr>"
  by (simp add: repeated_client_def notes_config_def add_file_def resolve_file_def
        parse_content_def truthy_val_def demo_defs)

lemma repeated_run_requests:
  "snd (snd repeated_run) =
     [PostFile ''notes.txt'' ''some notes'' ''text/plain'',
      PostAssistant ''gpt-4o-mini''
        (Some ''You are a helpful assistant that can analyze files and answer questions.'')
        (Some 0.7),
      PostThread
        [\<lparr>tm_role = Some ''user'', tm_content = Some ''What is 6 times 7?'',
          attachments = Some [Some (JStr ''file-1'')]\<rparr>,
         \<lparr>tm_role = Some ''user'', tm_content = Some ''What is 6 times 7?'',
          attachments = Some [Some (JStr ''file-1'')]\<rparr>],
      PostRun (Some (JStr ''thread-1'')) (Some (JStr ''asst-1'')),
      GetRun (Some (JStr ''thread-1'')) (Some (JStr ''run-1'')),
      GetMessages (Some (JStr ''thread-1'')),
      DeleteFile (Some (JStr ''file-1''))]"
  by (simp add: repeated_run_def repeated_client_value orchestrator_defs demo_defs)


section \<open>Adding messages\<close>

lemma add_message_loop_valid:
  "\<forall>r\<in>set pre. check_message (h r) = None \<Longrightarrow>
   add_message_loop h c (pre @ rest) = add_message_loop h (c\<lparr>messages := messages c @ pre\<rparr>) rest"
  by (induction pre arbitrary: c) simp_all

text \<open>Every sequence with an invalid element has a first one.\<close>

lemma first_invalid_split:
  assumes "\<exists>r\<in>set rs. check_message (h r) \<noteq> None"
  shows "\<exists>pre r0 post e. rs = pre @ r0 # post \<and> (\<forall>r\<in>set pre. check_message (h r) = None)
           \<and> check_message (h r0) = Some e"
proof -
  from assms obtain pre r0 post where
    "rs = pre @ r0 # post" "check_message (h r0) \<noteq> None"
    "\<forall>r\<in>set pre. \<not> check_message (h r) \<noteq> None"
    using split_list_first_prop[of rs "\<lambda>r. check_message (h r) \<noteq> None"] by blast
  then show ?thesis by auto
qed

lemma check_message_cases:
  "check_message m = Some e \<Longrightarrow>
     e = Error ''Each message must have role and content properties'' \<or>
     e = Error ''Message role must be user, assistant, or system''"
  by (auto simp: check_message_def split: if_splits)

text \<open>
  C1, as stated, fails: \<^verbatim>\<open>add_message([m1, m2])\<close> with a valid user message
  \<open>m1\<close> and a message \<open>m2\<close> of role \<^verbatim>\<open>robot\<close> throws, and \<open>m1\<close> has been appended
  to the message list, which was empty before the call.
\<close>

theorem add_message_not_atomic:
  "check_message (demo_heap 2) = Some (Error ''Message role must be user, assistant, or system'')
   \<and> fst (add_message demo_heap demo_client (Many [1, 2])) =
       Inl (Error ''Message role must be user, assistant, or system'')
   \<and> messages demo_client = []
   \<and> messages (snd (add_message demo_heap demo_client (Many [1, 2]))) = [1]"
  by (simp add: add_message_def check_message_def demo_heap_def truthy_str_def demo_client_def)

text \<open>
  C1, amended: \<^verbatim>\<open>add_message\<close> checks and appends element by element. When an
  element of the sequence is missing role or content (absent or empty) or has a role
  outside user, assistant, system, the call fails with the error of the first such
  element, and the message list is the list before the call followed by the elements
  that precede that element, in order; that element and the ones after it are not
  appended. A call with a single invalid message leaves the list unchanged.
\<close>

theorem add_message_appends_valid_prefix:
  assumes "\<forall>r\<in>set pre. check_message (h r) = None" and "check_message (h r0) = Some e"
  shows "add_message h c (Many (pre @ r0 # post)) = (Inl e, c\<lparr>messages := messages c @ pre\<rparr>)
         \<and> add_message h c (Single r0) = (Inl e, c)
         \<and> (e = Error ''Each message must have role and content properties'' \<or>
            e = Error ''Message role must be user, assistant, or system'')"
  using assms check_message_cases[OF assms(2)]
  by (simp add: add_message_def add_message_loop_valid)

theorem add_message_appends_valid_prefix_witness:
  "add_message demo_heap demo_client (Many [1, 2, 1]) =
     (Inl (Error ''Message role must be user, assistant, or system''), demo_client\<lparr>messages := [1]\<rparr>)"
  using add_message_appends_valid_prefix[of "[1]" demo_heap 2
      "Error ''Message role must be user, assistant, or system''" demo_client "[1]"]
  by (simp add: check_message_def demo_heap_def truthy_str_def demo_client_def)

text \<open>
  C10: a message whose content is the empty string is rejected with the error for a
  missing field, whatever its role, and nothing is appended. The check is
  \<^verbatim>\<open>!message.content\<close>, which is true of the empty string. In a sequence, the
  call fails at that message with the same error, and neither it nor a later element
  is appended.
\<close>

theorem add_message_rejects_empty_content:
  assumes "content (h r) = Some []"
  shows "add_message h c (Single r) =
           (Inl (Error ''Each message must have role and content properties''), c)
         \<and> add_message h c (Many [r]) =
           (Inl (Error ''Each message must have role and content properties''), c)
         \<and> (\<forall>pre post.
               (\<forall>x\<in>set pre. check_message (h x) = None) \<longrightarrow>
               add_message h c (Many (pre @ r # post)) =
                 (Inl (Error ''Each message must have role and content properties''),
                  c\<lparr>messages := messages c @ pre\<rparr>))"
  using assms by (simp add: add_message_def check_message_def truthy_str_def add_message_loop_valid)

theorem add_message_rejects_empty_content_witness:
  "role (demo_heap 3) = Some ''user'' \<and>
   add_message demo_heap demo_client (Single 3) =
     (Inl (Error ''Each message must have role and content properties''), demo_client)"
  using add_message_rejects_empty_content[of demo_heap 3 demo_client]
  by (simp add: demo_heap_def)

section \<open>Clearing the conversation\<close>

text \<open>
  C8: \<^verbatim>\<open>clear()\<close> empties the messages and the files, sets both identifiers to
  null and leaves the generation options as they were, whether they are the defaults or
  were set by \<^verbatim>\<open>set_options\<close>.
\<close>

theorem clear_resets_conversation:
  "messages (clear c) = [] \<and> files (clear c) = []
   \<and> assistantId (clear c) = Some JNull \<and> threadId (clear c) = Some JNull
   \<and> options (clear c) = options c
   \<and> options (clear (set_options c opts)) = options (set_options c opts)
   \<and> options (clear (c\<lparr>options := default_options\<rparr>)) = default_options"
  by (simp add: clear_def set_options_def)

section \<open>The poll loop\<close>

lemma wait_loop_end:
  "maxAttempts \<le> n \<Longrightarrow> waitForRunCompletion_loop env R c runId n lg = (Inl timeout_error, lg)"
  by (subst waitForRunCompletion_loop.simps) simp

lemma wait_loop_step:
  assumes "reports_non_terminal (R (lg @ [GetRun (threadId c) runId]))" and "n < maxAttempts"
  shows "waitForRunCompletion_loop env R c runId n lg =
         waitForRunCompletion_loop env R c runId (n + 1) (lg @ [GetRun (threadId c) runId])"
proof -
  from assms(1) obtain resp run st where
    r: "R (lg @ [GetRun (threadId c) runId]) = Inr resp" "ok resp"
       "resp_json resp = Inr run" "get_prop run ''status'' = Inr st"
    and st: "st \<noteq> Some (JStr ''completed'')" "st \<noteq> Some (JStr ''failed'')"
       "st \<noteq> Some (JStr ''cancelled'')" "st \<noteq> Some (JStr ''expired'')"
    by (auto simp: reports_non_terminal_def split: sum.splits)
  show ?thesis
    apply (subst waitForRunCompletion_loop.simps)
    apply (simp only: assms(2) if_True Let_def r sum.case not_True_eq_False if_False st)
    done
qed

lemma wait_loop_busy:
  assumes "\<forall>lg. reports_non_terminal (R (lg @ [GetRun (threadId c) runId]))"
  shows "k \<le> maxAttempts \<Longrightarrow>
         waitForRunCompletion_loop env R c runId (maxAttempts - k) lg =
           (Inl timeout_error, lg @ replicate k (GetRun (threadId c) runId))"
proof (induction k arbitrary: lg)
  case 0
  then show ?case by (simp add: wait_loop_end)
next
  case (Suc k)
  let ?q = "GetRun (threadId c) runId"
  have lt: "maxAttempts - Suc k < maxAttempts"
    using Suc.prems by (simp add: maxAttempts_def)
  have nxt: "maxAttempts - Suc k + 1 = maxAttempts - k"
    using Suc.prems by simp
  from assms have nt: "reports_non_terminal (R (lg @ [?q]))"
    by blast
  have "waitForRunCompletion_loop env R c runId (maxAttempts - Suc k) lg =
        waitForRunCompletion_loop env R c runId (maxAttempts - k) (lg @ [?q])"
    using wait_loop_step[of R lg c runId "maxAttempts - Suc k" env] nt lt nxt by simp
  also have "\<dots> = (Inl timeout_error, (lg @ [?q]) @ replicate k ?q)"
    using Suc.prems by (intro Suc.IH) simp
  finally show ?case
    by (simp add: replicate_app_Cons_same)
qed

lemma wait_loop_failed:
  assumes "reports_status (R (lg @ [GetRun (threadId c) runId])) run st"
    and "st \<in> set [''failed'', ''cancelled'', ''expired'']" and "n < maxAttempts"
  shows "waitForRunCompletion_loop env R c runId n lg =
           (Inl (run_error env run st), lg @ [GetRun (threadId c) runId])"
proof -
  from assms(1) obtain resp where
    r: "R (lg @ [GetRun (threadId c) runId]) = Inr resp" "ok resp"
       "resp_json resp = Inr run" "get_prop run ''status'' = Inr (Some (JStr st))"
    by (auto simp: reports_status_def split: sum.splits)
  from assms(2) have st: "st = ''failed'' \<or> st = ''cancelled'' \<or> st = ''expired''"
    by simp
  show ?thesis
    apply (subst waitForRunCompletion_loop.simps)
    apply (simp only: assms(3) if_True Let_def r sum.case not_True_eq_False if_False)
    using st apply auto
    done
qed

lemma run_error_not_timeout:
  "st \<in> set [''failed'', ''cancelled'', ''expired''] \<Longrightarrow> run_error env run st \<noteq> timeout_error"
  by (auto simp: run_error_def timeout_error_def Error_def)

text \<open>
  C4: when every status poll is answered with a status that is not terminal, the loop
  sends exactly 60 polls and then fails with the error
  \<^verbatim>\<open>Run timed out after 5 minutes\<close>. For a remote that answers a poll with
  \<^verbatim>\<open>failed\<close>, \<^verbatim>\<open>cancelled\<close> or \<^verbatim>\<open>expired\<close>, the loop fails at that poll with
  the run error, which is a different error.
\<close>

theorem poll_times_out_after_60_polls:
  assumes "\<forall>lg. reports_non_terminal (R (lg @ [GetRun (threadId c) runId]))"
  shows "waitForRunCompletion env R c runId lg =
           (Inl (Error ''Run timed out after 5 minutes''),
            lg @ replicate 60 (GetRun (threadId c) runId))
         \<and> (\<forall>R' run st.
               st \<in> set [''failed'', ''cancelled'', ''expired''] \<longrightarrow>
               reports_status (R' (lg @ [GetRun (threadId c) runId])) run st \<longrightarrow>
               waitForRunCompletion env R' c runId lg =
                 (Inl (run_error env run st), lg @ [GetRun (threadId c) runId])
               \<and> run_error env run st \<noteq> Error ''Run timed out after 5 minutes'')"
proof -
  have "waitForRunCompletion_loop env R c runId (maxAttempts - maxAttempts) lg =
          (Inl timeout_error, lg @ replicate maxAttempts (GetRun (threadId c) runId))"
    using assms by (intro wait_loop_busy) simp_all
  then have a: "waitForRunCompletion env R c runId lg =
           (Inl (Error ''Run timed out after 5 minutes''),
            lg @ replicate 60 (GetRun (threadId c) runId))"
    by (simp add: waitForRunCompletion_def timeout_error_def maxAttempts_def)
  have b: "waitForRunCompletion env R' c runId lg =
                 (Inl (run_error env run st), lg @ [GetRun (threadId c) runId])
               \<and> run_error env run st \<noteq> Error ''Run timed out after 5 minutes''"
    if "st \<in> set [''failed'', ''cancelled'', ''expired'']"
      and "reports_status (R' (lg @ [GetRun (threadId c) runId])) run st" for R' run st
    using wait_loop_failed[of R' lg c runId run st 0 env] that run_error_not_timeout[OF that(1), of env run]
    by (simp add: waitForRunCompletion_def timeout_error_def maxAttempts_def)
  from a b show ?thesis by blast
qed

theorem poll_times_out_after_60_polls_witness:
  "waitForRunCompletion demo_env busy_remote demo_client (Some (JStr ''run-1'')) [] =
     (Inl (Error ''Run timed out after 5 minutes''),
      replicate 60 (GetRun (Some JNull) (Some (JStr ''run-1''))))
   \<and> waitForRunCompletion demo_env failed_remote demo_client (Some (JStr ''run-1'')) [] =
     (Inl (Error ''Run failed: boom''), [GetRun (Some JNull) (Some (JStr ''run-1''))])
   \<and> fetch demo_env busy_remote demo_heap 1700000000 demo_started [] =
     (Inl (Error ''Run timed out after 5 minutes''),
      demo_client\<lparr>messages := [0, 1], assistantId := Some (JStr ''asst-1''),
                  threadId := Some (JStr ''thread-1'')\<rparr>,
      [PostAssistant ''gpt-4o-mini'' (Some ''Be brief.'') (Some 0.7),
       PostThread [\<lparr>tm_role = Some ''user'', tm_content = Some ''What is 6 times 7?'',
                    attachments = None\<rparr>],
       PostRun (Some (JStr ''thread-1'')) (Some (JStr ''asst-1''))]
      @ replicate 60 (GetRun (Some (JStr ''thread-1'')) (Some (JStr ''run-1''))))"
proof -
  have busy: "\<forall>lg. reports_non_terminal (busy_remote (lg @ [GetRun t r]))" for t r
    by (simp add: reports_non_terminal_def busy_remote_def ok_json_def)
  have failed: "reports_status
                 (failed_remote ([] @ [GetRun (threadId demo_client) (Some (JStr ''run-1''))]))
                 (JObj [(''id'', JStr ''run-1''), (''status'', JStr ''failed''),
                        (''last_error'', JObj [(''message'', JStr ''boom'')])]) ''failed''"
    by (simp add: reports_status_def failed_remote_def ok_json_def)
  note t = poll_times_out_after_60_polls[OF busy]
  have poll: "waitForRunCompletion env busy_remote c r lg =
      (Inl (Error ''Run timed out after 5 minutes''), lg @ replicate 60 (GetRun (threadId c) r))"
    for env c r lg
    using t[where c=c and runId=r and env=env and lg=lg] by simp
  have a: "waitForRunCompletion demo_env busy_remote demo_client (Some (JStr ''run-1'')) [] =
     (Inl (Error ''Run timed out after 5 minutes''),
      replicate 60 (GetRun (Some JNull) (Some (JStr ''run-1''))))"
    by (simp add: poll demo_client_def)
  have b: "waitForRunCompletion demo_env failed_remote demo_client (Some (JStr ''run-1'')) [] =
     (Inl (Error ''Run failed: boom''), [GetRun (Some JNull) (Some (JStr ''run-1''))])"
    using t[where c=demo_client and runId="Some (JStr ''run-1'')" and env=demo_env and lg="[]"]
      failed
    by (simp add: demo_client_def run_error_def js_string_def)
  have c: "fetch demo_env busy_remote demo_heap 1700000000 demo_started [] =
     (Inl (Error ''Run timed out after 5 minutes''),
      demo_client\<lparr>messages := [0, 1], assistantId := Some (JStr ''asst-1''),
                  threadId := Some (JStr ''thread-1'')\<rparr>,
      [PostAssistant ''gpt-4o-mini'' (Some ''Be brief.'') (Some 0.7),
       PostThread [\<lparr>tm_role = Some ''user'', tm_content = Some ''What is 6 times 7?'',
                    attachments = None\<rparr>],
       PostRun (Some (JStr ''thread-1'')) (Some (JStr ''asst-1''))]
      @ replicate 60 (GetRun (Some (JStr ''thread-1'')) (Some (JStr ''run-1''))))"
    by (simp add: demo_started_value run_defs poll busy_remote_def demo_defs Error_def)
  from a b c show ?thesis by blast
qed

section \<open>The requests sent by a run\<close>


lemma sends_only_append [simp]: "sends_only P lg (lg @ new) = list_all P new"
  by (simp add: sends_only_def requests_sent_def)

lemma sends_only_refl [simp]: "sends_only P lg lg"
  by (simp add: sends_only_def requests_sent_def)

lemma sends_only_iff: "sends_only P lg lg' \<longleftrightarrow> (\<exists>new. lg' = lg @ new \<and> list_all P new)"
proof
  assume "sends_only P lg lg'"
  then have "lg' = lg @ drop (length lg) lg'" "list_all P (drop (length lg) lg')"
    by (simp_all add: sends_only_def requests_sent_def) (metis append_take_drop_id)
  then show "\<exists>new. lg' = lg @ new \<and> list_all P new" by blast
next
  assume "\<exists>new. lg' = lg @ new \<and> list_all P new"
  then show "sends_only P lg lg'" by auto
qed

lemma sends_only_trans:
  "sends_only P a b \<Longrightarrow> sends_only P b c \<Longrightarrow> sends_only P a c"
  by (auto simp: sends_only_iff)

lemma wait_loop_sends:
  assumes "P (GetRun (threadId c) runId)"
  shows "waitForRunCompletion_loop env R c runId n lg = (r, lg') \<Longrightarrow> sends_only P lg lg'"
proof (induction "maxAttempts - n" arbitrary: n lg)
  case 0
  then show ?case by (simp add: wait_loop_end)
next
  case (Suc k)
  let ?q = "GetRun (threadId c) runId"
  have lt: "n < maxAttempts" using Suc.hyps(2) by simp
  have ih: "sends_only P (lg @ [?q]) lg'"
    if "waitForRunCompletion_loop env R c runId (n + 1) (lg @ [?q]) = (r, lg')"
    using Suc.hyps(1)[of "n + 1" "lg @ [?q]"] Suc.hyps(2) that by simp
  have "lg' = lg @ [?q] \<or> waitForRunCompletion_loop env R c runId (n + 1) (lg @ [?q]) = (r, lg')"
    using Suc.prems lt
    apply (subst (asm) waitForRunCompletion_loop.simps)
    apply (simp only: if_True Let_def)
    apply (auto split: sum.splits if_splits)
    done
  then show ?case
  proof
    assume "lg' = lg @ [?q]"
    with assms show ?thesis by simp
  next
    assume "waitForRunCompletion_loop env R c runId (n + 1) (lg @ [?q]) = (r, lg')"
    from ih[OF this] have "sends_only P (lg @ [?q]) lg'" .
    moreover have "sends_only P lg (lg @ [?q])" using assms by simp
    ultimately show ?thesis by (blast intro: sends_only_trans)
  qed
qed

section \<open>The steps of a run\<close>

lemma uploadFiles_loop_sends:
  assumes "\<And>n s m. P (PostFile n s m)"
  shows "uploadFiles_loop env R fs acc lg = (r, lg') \<Longrightarrow> sends_only P lg lg'"
proof (induction fs arbitrary: acc lg)
  case Nil
  then show ?case by simp
next
  case (Cons f fs)
  let ?q = "PostFile (basename env (if_path f)) (content_string env f)
              (if if_type f = Json then ''application/json'' else ''text/plain'')"
  have "lg' = lg @ [?q] \<or> (\<exists>acc'. uploadFiles_loop env R fs acc' (lg @ [?q]) = (r, lg'))"
    using Cons.prems by (auto simp: Let_def split: sum.splits if_splits)
  then show ?case
  proof
    assume "lg' = lg @ [?q]"
    with assms show ?thesis by simp
  next
    assume "\<exists>acc'. uploadFiles_loop env R fs acc' (lg @ [?q]) = (r, lg')"
    then have "sends_only P (lg @ [?q]) lg'" using Cons.IH by blast
    moreover have "sends_only P lg (lg @ [?q])" using assms by simp
    ultimately show ?thesis by (blast intro: sends_only_trans)
  qed
qed

lemma upload_step_sends:
  assumes "\<And>n s m. P (PostFile n s m)"
    and "(if files c \<noteq> [] then uploadFiles env R c lg else (Inr [], lg)) = (r, lg')"
  shows "sends_only P lg lg'"
  using assms(2) uploadFiles_loop_sends[of P, OF assms(1)]
  by (auto simp: uploadFiles_def split: if_splits)

lemma getOrCreateAssistant_sends:
  assumes "getOrCreateAssistant R h c lg = (r, c', lg')"
    and "\<not> truthy_val (assistantId c) \<Longrightarrow>
           P (PostAssistant (deploymentName c) (instructions h c) (temperature (options c)))"
  shows "sends_only P lg lg'"
  using assms
  by (auto simp: getOrCreateAssistant_def Let_def split: sum.splits if_splits)

lemma getOrCreateThread_sends:
  assumes "getOrCreateThread R h c up lg = (r, c', lg')"
    and "\<not> truthy_val (threadId c) \<Longrightarrow> P (PostThread (threadMessages h c up))"
  shows "sends_only P lg lg'"
  using assms
  by (auto simp: getOrCreateThread_def Let_def split: sum.splits if_splits)

lemma runAssistant_sends:
  assumes "runAssistant env R c lg = (r, lg')"
    and "P (PostRun (threadId c) (assistantId c))" and "\<And>i. P (GetRun (threadId c) i)"
  shows "sends_only P lg lg'"
proof -
  let ?p = "PostRun (threadId c) (assistantId c)"
  have "lg' = lg @ [?p] \<or> (\<exists>i. waitForRunCompletion_loop env R c i 0 (lg @ [?p]) = (r, lg'))"
    using assms(1)
    by (auto simp: runAssistant_def waitForRunCompletion_def Let_def split: sum.splits if_splits)
  then show ?thesis
  proof
    assume "lg' = lg @ [?p]"
    with assms(2) show ?thesis by simp
  next
    assume "\<exists>i. waitForRunCompletion_loop env R c i 0 (lg @ [?p]) = (r, lg')"
    then have "sends_only P (lg @ [?p]) lg'"
      using wait_loop_sends[of P c, OF assms(3)] by blast
    moreover have "sends_only P lg (lg @ [?p])" using assms(2) by simp
    ultimately show ?thesis by (blast intro: sends_only_trans)
  qed
qed

lemma getMessages_sends:
  assumes "getMessages R c lg = (r, lg')" and "P (GetMessages (threadId c))"
  shows "sends_only P lg lg'"
  using assms by (auto simp: getMessages_def Let_def split: sum.splits if_splits)

lemma getOrCreateAssistant_frame:
  assumes "getOrCreateAssistant R h c lg = (r, c', lg')"
  shows "lastResponse c' = lastResponse c \<and> threadId c' = threadId c
         \<and> deploymentName c' = deploymentName c \<and> timeout c' = timeout c
         \<and> messages c' = messages c \<and> files c' = files c
         \<and> (truthy_val (assistantId c) \<longrightarrow> assistantId c' = assistantId c)"
  using assms
  by (auto simp: getOrCreateAssistant_def Let_def split: sum.splits if_splits)

lemma getOrCreateThread_frame:
  assumes "getOrCreateThread R h c up lg = (r, c', lg')"
  shows "lastResponse c' = lastResponse c \<and> assistantId c' = assistantId c
         \<and> deploymentName c' = deploymentName c \<and> timeout c' = timeout c
         \<and> messages c' = messages c \<and> files c' = files c
         \<and> (truthy_val (threadId c) \<longrightarrow> threadId c' = threadId c)"
  using assms
  by (auto simp: getOrCreateThread_def Let_def split: sum.splits if_splits)

text \<open>The paths through the \<^verbatim>\<open>try\<close> block, one case for each place where it can end.\<close>

lemma fetch_try_elim [consumes 1, case_names nothing upload_failed assistant_failed thread_failed
    run_failed messages_failed format_failed success]:
  assumes "fetch_try env R h now c lg = (r, c', lg')"
  obtains
    "messages c = []" "files c = []" "c' = c" "lg' = lg"
    "r = Inl (Error ''No messages or files to send. Use add_message() or add_file() first.'')"
  | e where
    "(if files c \<noteq> [] then uploadFiles env R c lg else (Inr [], lg)) = (Inl e, lg')"
    "c' = c" "r = Inl e"
  | up lg1 e where
    "(if files c \<noteq> [] then uploadFiles env R c lg else (Inr [], lg)) = (Inr up, lg1)"
    "getOrCreateAssistant R h c lg1 = (Inl e, c', lg')" "r = Inl e"
  | up lg1 a c2 lg2 e where
    "(if files c \<noteq> [] then uploadFiles env R c lg else (Inr [], lg)) = (Inr up, lg1)"
    "getOrCreateAssistant R h c lg1 = (Inr a, c2, lg2)"
    "getOrCreateThread R h c2 up lg2 = (Inl e, c', lg')" "r = Inl e"
  | up lg1 a c2 lg2 t lg3 e where
    "(if files c \<noteq> [] then uploadFiles env R c lg else (Inr [], lg)) = (Inr up, lg1)"
    "getOrCreateAssistant R h c lg1 = (Inr a, c2, lg2)"
    "getOrCreateThread R h c2 up lg2 = (Inr t, c', lg3)"
    "runAssistant env R c' lg3 = (Inl e, lg')" "r = Inl e"
  | up lg1 a c2 lg2 t lg3 run lg4 e where
    "(if files c \<noteq> [] then uploadFiles env R c lg else (Inr [], lg)) = (Inr up, lg1)"
    "getOrCreateAssistant R h c lg1 = (Inr a, c2, lg2)"
    "getOrCreateThread R h c2 up lg2 = (Inr t, c', lg3)"
    "runAssistant env R c' lg3 = (Inr run, lg4)"
    "getMessages R c' lg4 = (Inl e, lg')" "r = Inl e"
  | up lg1 a c2 lg2 t lg3 run lg4 msg e where
    "(if files c \<noteq> [] then uploadFiles env R c lg else (Inr [], lg)) = (Inr up, lg1)"
    "getOrCreateAssistant R h c lg1 = (Inr a, c2, lg2)"
    "getOrCreateThread R h c2 up lg2 = (Inr t, c', lg3)"
    "runAssistant env R c' lg3 = (Inr run, lg4)"
    "getMessages R c' lg4 = (Inr msg, lg')"
    "formattedResponse c' now run msg = Inl e" "r = Inl e"
  | up lg1 a c2 lg2 t c3 lg3 run lg4 msg lg5 res where
    "(if files c \<noteq> [] then uploadFiles env R c lg else (Inr [], lg)) = (Inr up, lg1)"
    "getOrCreateAssistant R h c lg1 = (Inr a, c2, lg2)"
    "getOrCreateThread R h c2 up lg2 = (Inr t, c3, lg3)"
    "runAssistant env R c3 lg3 = (Inr run, lg4)"
    "getMessages R c3 lg4 = (Inr msg, lg5)"
    "formattedResponse c3 now run msg = Inr res"
    "c' = c3\<lparr>lastResponse := Some res\<rparr>"
    "lg' = lg5 @ map (\<lambda>f. DeleteFile (uf_id f)) up" "r = Inr ()"
proof (cases "messages c = [] \<and> files c = []")
  case True
  with assms have "c' = c" "lg' = lg"
    "r = Inl (Error ''No messages or files to send. Use add_message() or add_file() first.'')"
    by (auto simp: fetch_try_def)
  with True that(1) show ?thesis by blast
next
  case False
  obtain ru lg1 where u: "(if files c \<noteq> [] then uploadFiles env R c lg else (Inr [], lg)) = (ru, lg1)"
    by (cases "(if files c \<noteq> [] then uploadFiles env R c lg else (Inr [], lg))") simp
  obtain ra c2 lg2 where a: "getOrCreateAssistant R h c lg1 = (ra, c2, lg2)"
    by (cases "getOrCreateAssistant R h c lg1") simp
  show ?thesis
  proof (cases ru)
    case (Inl e)
    with assms False u have "c' = c" "lg' = lg1" "r = Inl e"
      by (auto simp: fetch_try_def)
    with u Inl show ?thesis by (intro that(2)[of e]) simp_all
  next
    case up: (Inr up)
    show ?thesis
    proof (cases ra)
      case (Inl e)
      with assms False u up a have "c' = c2" "lg' = lg2" "r = Inl e"
        by (auto simp: fetch_try_def)
      with u up a Inl show ?thesis by (intro that(3)[of up lg1 e]) simp_all
    next
      case ra: (Inr ai)
      obtain rt c3 lg3 where t: "getOrCreateThread R h c2 up lg2 = (rt, c3, lg3)"
        by (cases "getOrCreateThread R h c2 up lg2") simp
      show ?thesis
      proof (cases rt)
        case (Inl e)
        with assms False u up a ra t have "c' = c3" "lg' = lg3" "r = Inl e"
          by (auto simp: fetch_try_def)
        with u up a ra t Inl show ?thesis by (intro that(4)[of up lg1 ai c2 lg2 e]) simp_all
      next
        case rt: (Inr ti)
        obtain rr lg4 where rn: "runAssistant env R c3 lg3 = (rr, lg4)"
          by (cases "runAssistant env R c3 lg3") simp
        show ?thesis
        proof (cases rr)
          case (Inl e)
          with assms False u up a ra t rt rn have "c' = c3" "lg' = lg4" "r = Inl e"
            by (auto simp: fetch_try_def)
          with u up a ra t rt rn Inl show ?thesis
            by (intro that(5)[of up lg1 ai c2 lg2 ti lg3 e]) simp_all
        next
          case rr: (Inr run)
          obtain rm lg5 where m: "getMessages R c3 lg4 = (rm, lg5)"
            by (cases "getMessages R c3 lg4") simp
          show ?thesis
          proof (cases rm)
            case (Inl e)
            with assms False u up a ra t rt rn rr m have "c' = c3" "lg' = lg5" "r = Inl e"
              by (auto simp: fetch_try_def)
            with u up a ra t rt rn rr m Inl show ?thesis
              by (intro that(6)[of up lg1 ai c2 lg2 ti lg3 run lg4 e]) simp_all
          next
            case rm: (Inr msg)
            show ?thesis
            proof (cases "formattedResponse c3 now run msg")
              case (Inl e)
              with assms False u up a ra t rt rn rr m rm have "c' = c3" "lg' = lg5" "r = Inl e"
                by (auto simp: fetch_try_def)
              with u up a ra t rt rn rr m rm Inl show ?thesis
                by (intro that(7)[of up lg1 ai c2 lg2 ti lg3 run lg4 msg e]) simp_all
            next
              case (Inr res)
              with assms False u up a ra t rt rn rr m rm
              have "c' = c3\<lparr>lastResponse := Some res\<rparr>"
                "lg' = lg5 @ map (\<lambda>f. DeleteFile (uf_id f)) up" "r = Inr ()"
                by (auto simp: fetch_try_def)
              with u up a ra t rt rn rr m rm Inr show ?thesis
                by (intro that(8)[of up lg1 ai c2 lg2 ti c3 lg3 run lg4 msg lg5 res]) simp_all
            qed
          qed
        qed
      qed
    qed
  qed
qed


lemma fetch_try_frame:
  assumes "fetch_try env R h now c lg = (r, c', lg')"
  shows "deploymentName c' = deploymentName c \<and> timeout c' = timeout c
         \<and> messages c' = messages c \<and> files c' = files c
         \<and> (truthy_val (assistantId c) \<longrightarrow> assistantId c' = assistantId c)
         \<and> (truthy_val (threadId c) \<longrightarrow> threadId c' = threadId c)
         \<and> (\<forall>e. r = Inl e \<longrightarrow> lastResponse c' = lastResponse c)"
  using assms
  by (cases rule: fetch_try_elim)
     (auto dest!: getOrCreateAssistant_frame getOrCreateThread_frame)

lemma fetch_try_sends:
  assumes "fetch_try env R h now c lg = (r, c', lg')"
    and files: "\<And>n s m. P (PostFile n s m)"
    and asst: "\<And>m i t. \<not> truthy_val (assistantId c) \<Longrightarrow> P (PostAssistant m i t)"
    and thr: "\<And>ms. \<not> truthy_val (threadId c) \<Longrightarrow> P (PostThread ms)"
    and run: "P (PostRun (threadId c') (assistantId c'))"
    and poll: "\<And>t i. P (GetRun t i)"
    and msgs: "\<And>t. P (GetMessages t)"
    and del: "\<And>f. P (DeleteFile f)"
  shows "sends_only P lg lg'"
  using assms(1)
proof (cases rule: fetch_try_elim)
  case nothing
  then show ?thesis by simp
next
  case (upload_failed e)
  then show ?thesis using upload_step_sends[of P, OF files] by blast
next
  case (assistant_failed up lg1 e)
  have "sends_only P lg lg1" using upload_step_sends[of P, OF files] assistant_failed(1) by blast
  moreover have "sends_only P lg1 lg'"
    using getOrCreateAssistant_sends[OF assistant_failed(2), of P] asst by blast
  ultimately show ?thesis by (blast intro: sends_only_trans)
next
  case (thread_failed up lg1 a c2 lg2 e)
  have "sends_only P lg lg1" using upload_step_sends[of P, OF files] thread_failed(1) by blast
  moreover have "sends_only P lg1 lg2"
    using getOrCreateAssistant_sends[OF thread_failed(2), of P] asst by blast
  moreover have "threadId c2 = threadId c"
    using getOrCreateAssistant_frame[OF thread_failed(2)] by simp
  then have "sends_only P lg2 lg'"
    using getOrCreateThread_sends[OF thread_failed(3), of P] thr by simp
  ultimately show ?thesis by (blast intro: sends_only_trans)
next
  case (run_failed up lg1 a c2 lg2 t lg3 e)
  have "sends_only P lg lg1" using upload_step_sends[of P, OF files] run_failed(1) by blast
  moreover have "sends_only P lg1 lg2"
    using getOrCreateAssistant_sends[OF run_failed(2), of P] asst by blast
  moreover have "threadId c2 = threadId c"
    using getOrCreateAssistant_frame[OF run_failed(2)] by simp
  then have "sends_only P lg2 lg3"
    using getOrCreateThread_sends[OF run_failed(3), of P] thr by simp
  moreover have "sends_only P lg3 lg'"
    using runAssistant_sends[OF run_failed(4), of P] run poll by blast
  ultimately show ?thesis by (blast intro: sends_only_trans)
next
  case (messages_failed up lg1 a c2 lg2 t lg3 run' lg4 e)
  have "sends_only P lg lg1" using upload_step_sends[of P, OF files] messages_failed(1) by blast
  moreover have "sends_only P lg1 lg2"
    using getOrCreateAssistant_sends[OF messages_failed(2), of P] asst by blast
  moreover have "threadId c2 = threadId c"
    using getOrCreateAssistant_frame[OF messages_failed(2)] by simp
  then have "sends_only P lg2 lg3"
    using getOrCreateThread_sends[OF messages_failed(3), of P] thr by simp
  moreover have "sends_only P lg3 lg4"
    using runAssistant_sends[OF messages_failed(4), of P] run poll by blast
  moreover have "sends_only P lg4 lg'"
    using getMessages_sends[OF messages_failed(5), of P] msgs by blast
  ultimately show ?thesis by (blast intro: sends_only_trans)
next
  case (format_failed up lg1 a c2 lg2 t lg3 run' lg4 msg e)
  have "sends_only P lg lg1" using upload_step_sends[of P, OF files] format_failed(1) by blast
  moreover have "sends_only P lg1 lg2"
    using getOrCreateAssistant_sends[OF format_failed(2), of P] asst by blast
  moreover have "threadId c2 = threadId c"
    using getOrCreateAssistant_frame[OF format_failed(2)] by simp
  then have "sends_only P lg2 lg3"
    using getOrCreateThread_sends[OF format_failed(3), of P] thr by simp
  moreover have "sends_only P lg3 lg4"
    using runAssistant_sends[OF format_failed(4), of P] run poll by blast
  moreover have "sends_only P lg4 lg'"
    using getMessages_sends[OF format_failed(5), of P] msgs by blast
  ultimately show ?thesis by (blast intro: sends_only_trans)
next
  case (success up lg1 a c2 lg2 t c3 lg3 run' lg4 msg lg5 res)
  have ids: "threadId c3 = threadId c'" "assistantId c3 = assistantId c'"
    using success(7) by simp_all
  have "sends_only P lg lg1" using upload_step_sends[of P, OF files] success(1) by blast
  moreover have "sends_only P lg1 lg2"
    using getOrCreateAssistant_sends[OF success(2), of P] asst by blast
  moreover have "threadId c2 = threadId c"
    using getOrCreateAssistant_frame[OF success(2)] by simp
  then have "sends_only P lg2 lg3"
    using getOrCreateThread_sends[OF success(3), of P] thr by simp
  moreover have "sends_only P lg3 lg4"
    using runAssistant_sends[OF success(4), of P] run poll ids by simp
  moreover have "sends_only P lg4 lg5"
    using getMessages_sends[OF success(5), of P] msgs by blast
  moreover have "sends_only P lg5 lg'"
    using success(8) del by (simp add: list_all_iff)
  ultimately show ?thesis by (blast intro: sends_only_trans)
qed

lemma fetch_try_success:
  assumes "fetch_try env R h now c lg = (Inr u, c', lg')"
  shows "\<exists>c3 lg3 run lg4 msg lg5 res.
           runAssistant env R c3 lg3 = (Inr run, lg4) \<and> getMessages R c3 lg4 = (Inr msg, lg5)
           \<and> formattedResponse c3 now run msg = Inr res \<and> deploymentName c3 = deploymentName c
           \<and> lastResponse c' = Some res"
  using assms
proof (cases rule: fetch_try_elim)
  case (success up lg1 a c2 lg2 t c3 lg3 run lg4 msg lg5 res)
  have "deploymentName c3 = deploymentName c"
    using getOrCreateAssistant_frame[OF success(2)] getOrCreateThread_frame[OF success(3)] by simp
  with success show ?thesis
    by (intro exI[of _ c3] exI[of _ lg3] exI[of _ run] exI[of _ lg4] exI[of _ msg] exI[of _ lg5]
          exI[of _ res]) simp
qed simp_all

lemma fetch_from_try:
  assumes "fetch env R h now c lg = (r, c', lg')"
  shows "\<exists>r0. fetch_try env R h now c lg = (r0, c', lg') \<and> (\<forall>u. r = Inr u \<longrightarrow> r0 = Inr u)
           \<and> (\<forall>e. r = Inl e \<longrightarrow> (\<exists>e0. r0 = Inl e0))"
  using assms by (auto simp: fetch_def split: prod.splits sum.splits)


section \<open>Staging a file\<close>

text \<open>The two shapes of a configuration that stage a string as json.\<close>

lemma resolve_raw_json:
  "raw_file cfg = Some (JStr s) \<Longrightarrow> s \<noteq> [] \<Longrightarrow> file_name cfg = Some n \<Longrightarrow> n \<noteq> [] \<Longrightarrow>
   file_type cfg = Some Json \<Longrightarrow> resolve_file env cfg = Inr (n, JStr s, Json)"
  by (simp add: resolve_file_def truthy_val_def truthy_str_def)

lemma resolve_path_json:
  "\<not> truthy_val (raw_file cfg) \<Longrightarrow> file_path cfg = Some p \<Longrightarrow> p \<noteq> [] \<Longrightarrow> existsSync env p \<Longrightarrow>
   readFileSync env p = Inr s \<Longrightarrow>
   file_type cfg = Some Json \<or> file_type cfg = None \<and> toLowerCase env (extname env p) = ''.json'' \<Longrightarrow>
   resolve_file env cfg = Inr (p, JStr s, Json)"
  by (auto simp: resolve_file_def truthy_str_def)

text \<open>The parse error of a string that is staged as json is rethrown before the push.\<close>

lemma add_file_parse_error:
  assumes "resolve_file env cfg = Inr (pathStr, JStr s, Json)"
    and "JSON_parse env s = Inl parseError"
  shows "add_file env c cfg =
           (Inl (Error (''Invalid JSON content: '' @ err_message parseError)), c)"
  using assms by (simp add: add_file_def parse_content_def)

text \<open>
  C7, as stated, fails: a configuration of kind json whose \<^verbatim>\<open>raw_file\<close> is the empty
  string has raw content that does not parse, but \<^verbatim>\<open>if (fileConfig.raw_file)\<close> is
  false of the empty string, and with no \<^verbatim>\<open>file_path\<close> the call fails with an error
  that names no parse error.
\<close>

theorem empty_raw_file_names_no_parse_error:
  "raw_file empty_raw_config = Some (JStr [])
   \<and> file_type empty_raw_config = Some Json
   \<and> JSON_parse demo_env [] = Inl (JsError ''SyntaxError'' ''Unexpected end of JSON input'')
   \<and> add_file demo_env demo_client empty_raw_config =
       (Inl (Error ''Either raw_file or file_path must be provided''), demo_client)"
  by (simp add: empty_raw_config_def demo_env_def add_file_def resolve_file_def truthy_val_def
        truthy_str_def)

text \<open>
  C7, amended: let \<^verbatim>\<open>JSON.parse\<close> throw on the string \<open>s\<close>. When \<open>s\<close> is a non-empty
  \<^verbatim>\<open>raw_file\<close> given with a \<^verbatim>\<open>file_name\<close> and kind json, or the content of an
  existing file at \<^verbatim>\<open>file_path\<close> (with \<^verbatim>\<open>raw_file\<close> absent or falsy) whose kind is
  json by \<^verbatim>\<open>file_type\<close> or by its extension, \<^verbatim>\<open>add_file\<close> fails with the error
  \<^verbatim>\<open>Invalid JSON content: \<close> followed by the parser's message. A truthy
  \<^verbatim>\<open>raw_file\<close> without \<^verbatim>\<open>file_name\<close> fails with the error for the missing name,
  and a \<^verbatim>\<open>raw_file\<close> that is the empty string, with no \<^verbatim>\<open>file_path\<close>, fails with
  the error for a missing source. In all four cases the client, its file list included,
  is unchanged, and as a call in a sequence \<^verbatim>\<open>add_file\<close> leaves the request log as
  it was: it has no access to the remote.
\<close>

theorem add_file_rejects_malformed_json:
  assumes "JSON_parse env s = Inl parseError"
  shows "(raw_file cfg = Some (JStr s) \<and> s \<noteq> [] \<and> truthy_str (file_name cfg)
            \<and> file_type cfg = Some Json \<longrightarrow>
            add_file env c cfg =
              (Inl (Error (''Invalid JSON content: '' @ err_message parseError)), c)
            \<and> run_call env R (AddFile cfg) (c, lg, flag) = (c, lg, flag))
         \<and> (\<not> truthy_val (raw_file cfg) \<and> file_path cfg = Some p \<and> p \<noteq> []
            \<and> existsSync env p \<and> readFileSync env p = Inr s
            \<and> (file_type cfg = Some Json
                \<or> file_type cfg = None \<and> toLowerCase env (extname env p) = ''.json'') \<longrightarrow>
            add_file env c cfg =
              (Inl (Error (''Invalid JSON content: '' @ err_message parseError)), c)
            \<and> run_call env R (AddFile cfg) (c, lg, flag) = (c, lg, flag))
         \<and> (truthy_val (raw_file cfg) \<and> \<not> truthy_str (file_name cfg) \<longrightarrow>
            add_file env c cfg =
              (Inl (Error ''file_name is required when using raw_file''), c)
            \<and> run_call env R (AddFile cfg) (c, lg, flag) = (c, lg, flag))
         \<and> (raw_file cfg = Some (JStr []) \<and> \<not> truthy_str (file_path cfg) \<longrightarrow>
            add_file env c cfg =
              (Inl (Error ''Either raw_file or file_path must be provided''), c)
            \<and> run_call env R (AddFile cfg) (c, lg, flag) = (c, lg, flag))"
proof -
  have raw: "add_file env c cfg =
              (Inl (Error (''Invalid JSON content: '' @ err_message parseError)), c)"
    if "raw_file cfg = Some (JStr s)" "s \<noteq> []" "truthy_str (file_name cfg)"
      "file_type cfg = Some Json"
  proof -
    from that(3) obtain n where "file_name cfg = Some n" "n \<noteq> []"
      by (auto simp: truthy_str_def split: option.splits)
    with that have "resolve_file env cfg = Inr (n, JStr s, Json)"
      by (intro resolve_raw_json)
    from add_file_parse_error[OF this assms] show ?thesis .
  qed
  have path: "add_file env c cfg =
              (Inl (Error (''Invalid JSON content: '' @ err_message parseError)), c)"
    if "\<not> truthy_val (raw_file cfg)" "file_path cfg = Some p" "p \<noteq> []" "existsSync env p"
      "readFileSync env p = Inr s"
      "file_type cfg = Some Json
         \<or> file_type cfg = None \<and> toLowerCase env (extname env p) = ''.json''"
  proof -
    from that have "resolve_file env cfg = Inr (p, JStr s, Json)"
      by (intro resolve_path_json)
    from add_file_parse_error[OF this assms] show ?thesis .
  qed
  have name: "add_file env c cfg = (Inl (Error ''file_name is required when using raw_file''), c)"
    if "truthy_val (raw_file cfg)" "\<not> truthy_str (file_name cfg)"
    using that by (auto simp: add_file_def resolve_file_def truthy_val_def split: option.splits)
  have empty: "add_file env c cfg =
              (Inl (Error ''Either raw_file or file_path must be provided''), c)"
    if "raw_file cfg = Some (JStr [])" "\<not> truthy_str (file_path cfg)"
    using that by (simp add: add_file_def resolve_file_def truthy_val_def)
  from raw path name empty show ?thesis by simp
qed

theorem add_file_rejects_malformed_json_witness:
  "add_file demo_env demo_client bad_json_config =
     (Inl (Error ''Invalid JSON content: Unexpected token''), demo_client)
   \<and> add_file demo_env demo_client path_json_config =
     (Inl (Error ''Invalid JSON content: Unexpected token''), demo_client)"
proof -
  have p: "JSON_parse demo_env ''{oops'' = Inl (JsError ''SyntaxError'' ''Unexpected token'')"
    by (simp add: demo_env_def)
  have a: "add_file demo_env demo_client bad_json_config =
     (Inl (Error ''Invalid JSON content: Unexpected token''), demo_client)"
    using add_file_rejects_malformed_json[OF p, of bad_json_config demo_client]
    by (simp add: bad_json_config_def truthy_str_def)
  have b: "add_file demo_env demo_client path_json_config =
     (Inl (Error ''Invalid JSON content: Unexpected token''), demo_client)"
    using add_file_rejects_malformed_json[OF p, where cfg=path_json_config and c=demo_client
        and p="''data.json''"]
    by (simp add: path_json_config_def truthy_val_def demo_env_def)
  from a b show ?thesis by simp
qed

section \<open>The stored result\<close>

lemma add_message_loop_lastResponse:
  "lastResponse (snd (add_message_loop h c rs)) = lastResponse c"
  by (induction rs arbitrary: c) (simp_all split: option.splits)

lemma add_file_lastResponse: "lastResponse (snd (add_file env c cfg)) = lastResponse c"
  by (simp add: add_file_def split: sum.splits prod.splits)

lemma fetch_lastResponse:
  assumes "fetch env R h now c lg = (r, c', lg')"
  shows "(\<forall>e. r = Inl e \<longrightarrow> lastResponse c' = lastResponse c)
         \<and> (\<forall>u. r = Inr u \<longrightarrow> lastResponse c' \<noteq> None)"
proof -
  from fetch_from_try[OF assms] obtain r0 where
    t: "fetch_try env R h now c lg = (r0, c', lg')" and
    ok: "\<forall>u. r = Inr u \<longrightarrow> r0 = Inr u" and err: "\<forall>e. r = Inl e \<longrightarrow> (\<exists>e0. r0 = Inl e0)"
    by (elim exE conjE)
  have "lastResponse c' = lastResponse c" if "r = Inl e" for e
    using fetch_try_frame[OF t] err that by blast
  moreover have "lastResponse c' \<noteq> None" if "r = Inr u" for u
  proof -
    from ok that have "fetch_try env R h now c lg = (Inr u, c', lg')" using t by simp
    from fetch_try_success[OF this] show ?thesis by auto
  qed
  ultimately show ?thesis by blast
qed

lemma run_call_flag:
  assumes "run_call env R x (c, lg, s) = (c', lg', s')" and "(lastResponse c \<noteq> None) = s"
  shows "(lastResponse c' \<noteq> None) = s'"
proof (cases x)
  case (AddMessage h arg)
  with assms show ?thesis by (auto simp: add_message_def add_message_loop_lastResponse)
next
  case (AddFile cfg)
  with assms show ?thesis by (auto simp: add_file_lastResponse)
next
  case (SetOptions opts)
  with assms show ?thesis by (auto simp: set_options_def)
next
  case (Fetch h now)
  obtain r c1 lg1 where f: "fetch env R h now c lg = (r, c1, lg1)"
    by (cases "fetch env R h now c lg") auto
  from fetch_lastResponse[OF f] f Fetch assms show ?thesis
    by (cases r) auto
next
  case Clear
  with assms show ?thesis by (auto simp: clear_def)
qed

lemma run_calls_flag:
  "run_calls env R xs (c, lg, s) = (c', lg', s') \<Longrightarrow> (lastResponse c \<noteq> None) = s \<Longrightarrow>
   (lastResponse c' \<noteq> None) = s'"
proof (induction xs arbitrary: c lg s)
  case Nil
  then show ?case by simp
next
  case (Cons x xs)
  obtain c1 lg1 s1 where st: "run_call env R x (c, lg, s) = (c1, lg1, s1)"
    by (cases "run_call env R x (c, lg, s)") auto
  from run_call_flag[OF st Cons.prems(2)] have "(lastResponse c1 \<noteq> None) = s1" .
  moreover from Cons.prems(1) st have "run_calls env R xs (c1, lg1, s1) = (c', lg', s')"
    by simp
  ultimately show ?case using Cons.IH by blast
qed

text \<open>
  C2, as stated, fails: after a successful run, \<^verbatim>\<open>clear()\<close> leaves the stored
  result in place, and \<^verbatim>\<open>raw_response()\<close> and \<^verbatim>\<open>response()\<close> return it.
\<close>

theorem clear_keeps_completion_result:
  "fst demo_first = Inr ()
   \<and> raw_response (clear (fst (snd demo_first))) = Inr demo_result
   \<and> response (clear (fst (snd demo_first))) = Inr (JStr ''42'')"
  by (simp add: demo_first_value raw_response_def response_def clear_def demo_result_def)

text \<open>
  C2, amended: after any sequence of \<^verbatim>\<open>add_message\<close>, \<^verbatim>\<open>add_file\<close>,
  \<^verbatim>\<open>set_options\<close>, \<^verbatim>\<open>fetch\<close> and \<^verbatim>\<open>clear\<close> calls on a new client, a stored
  result exists if and only if some run has completed successfully since the client was
  constructed, and \<^verbatim>\<open>clear()\<close> does not remove it: after \<^verbatim>\<open>clear()\<close>,
  \<^verbatim>\<open>raw_response()\<close> and \<^verbatim>\<open>response()\<close> return what they returned before it.
  They fail exactly when no run has succeeded yet.
\<close>

theorem completion_result_survives_clear:
  assumes "new_client cfg = Inr c0"
    and "run_calls env R calls (c0, [], False) = (c, lg, succeeded)"
  shows "(lastResponse c \<noteq> None) = succeeded
         \<and> (raw_response c = Inl (Error ''No response available. Call fetch() first.'')) = (\<not> succeeded)
         \<and> (response c = Inl (Error ''No response available. Call fetch() first.'')) = (\<not> succeeded)
         \<and> lastResponse (clear c) = lastResponse c
         \<and> raw_response (clear c) = raw_response c
         \<and> response (clear c) = response c"
proof -
  from assms(1) have "lastResponse c0 = None"
    by (auto simp: new_client_def split: if_splits)
  with run_calls_flag[OF assms(2)] have "(lastResponse c \<noteq> None) = succeeded" by simp
  then show ?thesis
    by (auto simp: raw_response_def response_def clear_def split: option.splits)
qed

theorem completion_result_survives_clear_witness:
  "run_calls demo_env demo_remote
     [AddMessage demo_heap (Many [0, 1]), Fetch demo_heap 1700000000, Clear] (demo_client, [], False)
     = (clear (fst (snd demo_first)), snd (snd demo_first), True)
   \<and> raw_response (clear (clear (fst (snd demo_first)))) = Inr demo_result"
proof -
  have n: "new_client demo_config = Inr demo_client"
    by (simp add: new_client_def demo_config_def demo_client_def strip_slash_def or_default_def)
  have r: "run_calls demo_env demo_remote
     [AddMessage demo_heap (Many [0, 1]), Fetch demo_heap 1700000000, Clear] (demo_client, [], False)
     = (clear (fst (snd demo_first)), snd (snd demo_first), True)"
    using demo_first_value by (simp add: demo_first_def demo_started_def)
  show ?thesis
    using completion_result_survives_clear[OF n r] r
    by (simp add: demo_first_value raw_response_def clear_def)
qed

text \<open>
  C3: a \<^verbatim>\<open>fetch()\<close> that fails leaves the stored result as it was: an earlier
  result is still returned by both accessors, and none exists if none existed.
\<close>

theorem failed_fetch_keeps_result:
  assumes "fetch env R h now c lg = (Inl e, c', lg')"
  shows "lastResponse c' = lastResponse c
         \<and> raw_response c' = raw_response c
         \<and> response c' = response c"
  using fetch_lastResponse[OF assms] by (simp add: raw_response_def response_def)

theorem failed_fetch_keeps_result_witness:
  "fst demo_failing = Inl (Error ''Failed to get messages: Internal Server Error'')
   \<and> raw_response (fst (snd demo_failing)) = Inr demo_response
   \<and> response (fst (snd demo_failing)) = Inr (JStr ''earlier reply'')"
proof -
  have "fetch demo_env no_messages_remote demo_heap 1700000060
          (demo_started\<lparr>lastResponse := Some demo_response\<rparr>) [] =
        (Inl (Error ''Failed to get messages: Internal Server Error''),
         fst (snd demo_failing), snd (snd demo_failing))"
    using demo_failing_value by (simp add: demo_failing_def)
  from failed_fetch_keeps_result[OF this] show ?thesis
    by (simp add: demo_failing_value raw_response_def response_def demo_response_def)
qed


section \<open>Reuse of the assistant and the thread\<close>

text \<open>
  C6, as stated, fails: the test is \<^verbatim>\<open>if (this.assistantId)\<close>, and the empty string
  is not null but falsy. Against a remote that hands out the empty string as
  identifier, the first run stores it, and the second run, with no \<^verbatim>\<open>clear()\<close> in
  between, sends a creation request for the assistant and one for the thread again.
\<close>

theorem empty_identifier_is_recreated:
  "fst blank_first = Inr ()
   \<and> assistantId (fst (snd blank_first)) = Some (JStr [])
   \<and> threadId (fst (snd blank_first)) = Some (JStr [])
   \<and> filter creates_assistant (requests_sent (snd (snd blank_first)) (snd (snd blank_second))) =
       [PostAssistant ''gpt-4o-mini'' (Some ''Be brief.'') (Some 0.7)]
   \<and> filter creates_thread (requests_sent (snd (snd blank_first)) (snd (snd blank_second))) =
       [PostThread [\<lparr>tm_role = Some ''user'', tm_content = Some ''What is 6 times 7?'',
                     attachments = None\<rparr>]]"
  by (simp add: blank_second_value requests_sent_def creates_assistant_def creates_thread_def)
     (simp add: blank_first_value)

text \<open>
  C6, amended: for every client whose \<^verbatim>\<open>assistantId\<close> (resp. \<^verbatim>\<open>threadId\<close>) is
  truthy, that is neither null nor the empty string, a run sends no request that
  creates an assistant (resp. a thread) and leaves the stored identifier unchanged;
  the run is submitted with the identifiers the client holds.
\<close>

theorem fetch_reuses_identifiers:
  assumes "fetch env R h now c lg = (r, c', lg')"
  shows "(truthy_val (assistantId c) \<longrightarrow>
            assistantId c' = assistantId c
            \<and> filter creates_assistant (requests_sent lg lg') = [])
         \<and> (truthy_val (threadId c) \<longrightarrow>
            threadId c' = threadId c
            \<and> filter creates_thread (requests_sent lg lg') = [])
         \<and> take (length lg) lg' = lg
         \<and> (\<forall>q\<in>set (requests_sent lg lg').
               submits_run q \<longrightarrow> q = PostRun (threadId c') (assistantId c'))"
proof -
  from fetch_from_try[OF assms] obtain r0 where
    t: "fetch_try env R h now c lg = (r0, c', lg')"
    by (elim exE conjE)
  note frame = fetch_try_frame[OF t]
  let ?P = "\<lambda>q. (truthy_val (assistantId c) \<longrightarrow> \<not> creates_assistant q)
               \<and> (truthy_val (threadId c) \<longrightarrow> \<not> creates_thread q)
               \<and> (submits_run q \<longrightarrow> q = PostRun (threadId c') (assistantId c'))"
  have "sends_only ?P lg lg'"
    by (rule fetch_try_sends[OF t])
       (simp_all add: creates_assistant_def creates_thread_def submits_run_def)
  then have pre: "take (length lg) lg' = lg" and all: "list_all ?P (requests_sent lg lg')"
    by (simp_all add: sends_only_def)
  from all have "\<forall>q\<in>set (requests_sent lg lg'). ?P q"
    by (simp add: list_all_iff)
  then show ?thesis
    using frame pre by (auto simp: filter_empty_conv)
qed

theorem fetch_reuses_identifiers_witness:
  "assistantId (fst (snd demo_second)) = Some (JStr ''asst-1'')
   \<and> threadId (fst (snd demo_second)) = Some (JStr ''thread-1'')
   \<and> filter creates_assistant (requests_sent (snd (snd demo_first)) (snd (snd demo_second))) = []
   \<and> filter creates_thread (requests_sent (snd (snd demo_first)) (snd (snd demo_second))) = []"
proof -
  have run: "fetch demo_env demo_remote demo_heap 1700000060 (fst (snd demo_first))
               (snd (snd demo_first)) =
             (fst demo_second, fst (snd demo_second), snd (snd demo_second))"
    by (simp add: demo_second_def)
  have ids: "truthy_val (assistantId (fst (snd demo_first)))"
    "truthy_val (threadId (fst (snd demo_first)))"
    "assistantId (fst (snd demo_first)) = Some (JStr ''asst-1'')"
    "threadId (fst (snd demo_first)) = Some (JStr ''thread-1'')"
    by (simp_all add: demo_first_value truthy_val_def)
  from fetch_reuses_identifiers[OF run] ids show ?thesis
    by simp
qed

section \<open>The materialized result\<close>

lemma contentValue_structured:
  "contentValue (Some (JObj [(''role'', r),
      (''content'', JArr [JObj [(''text'', JObj [(''value'', JStr s)])]])])) = JStr s"
  by (simp add: contentValue_def coalesce_def)

lemma contentValue_plain:
  "contentValue (Some (JObj [(''role'', r), (''content'', JStr s)])) = JStr s"
  by (cases s) (simp_all add: contentValue_def coalesce_def)

text \<open>
  A run that succeeds ends with the poll that reported \<^verbatim>\<open>completed\<close>, and the
  message fetch comes right after it.
\<close>

lemma wait_loop_success:
  "waitForRunCompletion_loop env R c rid n lg = (Inr run, lg') \<Longrightarrow>
     \<exists>mid resp. lg' = lg @ mid @ [GetRun (threadId c) rid] \<and> R lg' = Inr resp \<and> ok resp
       \<and> resp_json resp = Inr run \<and> get_prop run ''status'' = Inr (Some (JStr ''completed''))"
proof (induction "maxAttempts - n" arbitrary: n lg)
  case 0
  then show ?case by (simp add: wait_loop_end)
next
  case (Suc k)
  let ?q = "GetRun (threadId c) rid"
  have lt: "n < maxAttempts" using Suc.hyps(2) by simp
  have "(lg' = lg @ [?q] \<and> (\<exists>resp. R lg' = Inr resp \<and> ok resp \<and> resp_json resp = Inr run
            \<and> get_prop run ''status'' = Inr (Some (JStr ''completed''))))
        \<or> waitForRunCompletion_loop env R c rid (n + 1) (lg @ [?q]) = (Inr run, lg')"
    using Suc.prems lt
    apply (subst (asm) waitForRunCompletion_loop.simps)
    apply (simp only: if_True Let_def)
    apply (auto split: sum.splits if_splits)
    done
  then show ?case
  proof
    assume "lg' = lg @ [?q] \<and> (\<exists>resp. R lg' = Inr resp \<and> ok resp \<and> resp_json resp = Inr run
            \<and> get_prop run ''status'' = Inr (Some (JStr ''completed'')))"
    then show ?thesis by (intro exI[of _ "[]"]) auto
  next
    assume rec: "waitForRunCompletion_loop env R c rid (n + 1) (lg @ [?q]) = (Inr run, lg')"
    have k: "k = maxAttempts - (n + 1)" using Suc.hyps(2) by simp
    from Suc.hyps(1)[OF k rec]
    obtain mid resp where "lg' = (lg @ [?q]) @ mid @ [?q]" "R lg' = Inr resp" "ok resp"
      "resp_json resp = Inr run" "get_prop run ''status'' = Inr (Some (JStr ''completed''))"
      by blast
    then show ?thesis by (intro exI[of _ "?q # mid"] exI[of _ resp]) simp
  qed
qed

lemma runAssistant_success:
  assumes "runAssistant env R c lg = (Inr run, lg')"
  shows "\<exists>mid rid resp. lg' = lg @ mid @ [GetRun (threadId c) rid] \<and> R lg' = Inr resp \<and> ok resp
       \<and> resp_json resp = Inr run \<and> get_prop run ''status'' = Inr (Some (JStr ''completed''))"
proof -
  let ?p = "PostRun (threadId c) (assistantId c)"
  have "\<exists>i. waitForRunCompletion_loop env R c i 0 (lg @ [?p]) = (Inr run, lg')"
    using assms
    by (auto simp: runAssistant_def waitForRunCompletion_def Let_def split: sum.splits if_splits)
  then obtain i where "waitForRunCompletion_loop env R c i 0 (lg @ [?p]) = (Inr run, lg')" ..
  from wait_loop_success[OF this] obtain mid resp where
    "lg' = (lg @ [?p]) @ mid @ [GetRun (threadId c) i]" "R lg' = Inr resp" "ok resp"
      "resp_json resp = Inr run" "get_prop run ''status'' = Inr (Some (JStr ''completed''))"
    by blast
  then show ?thesis by (intro exI[of _ "?p # mid"] exI[of _ i] exI[of _ resp]) simp
qed

lemma getMessages_success:
  assumes "getMessages R c lg = (Inr msg, lg')"
  shows "lg' = lg @ [GetMessages (threadId c)]
         \<and> (\<exists>resp msgs d. R lg' = Inr resp \<and> ok resp \<and> resp_json resp = Inr msgs
               \<and> get_prop msgs ''data'' = Inr d \<and> msg = opt_index0 d)"
  using assms by (auto simp: getMessages_def Let_def split: sum.splits if_splits)

lemma completed_run_object:
  "get_prop run ''status'' = Inr (Some st) \<Longrightarrow>
     \<exists>rkvs. run = JObj rkvs \<and> map_of rkvs ''status'' = Some st
       \<and> get_prop run ''id'' = Inr (map_of rkvs ''id'')"
  by (cases run) simp_all

text \<open>A suffix of deletions after a request that is no deletion is determined by the list.\<close>

lemma delete_suffix_unique:
  "us @ b # r = vs @ b' # r' \<Longrightarrow> list_all P us \<Longrightarrow> list_all P vs \<Longrightarrow> \<not> P b \<Longrightarrow> \<not> P b' \<Longrightarrow>
   us = vs \<and> b = b' \<and> r = r'"
proof (induction us arbitrary: vs)
  case Nil
  then show ?case by (cases vs) auto
next
  case (Cons u us)
  then show ?case by (cases vs) auto
qed

lemma run_tail_unique:
  assumes "lg @ sent @ [a, b] @ dels = lg @ sent' @ [a', b] @ dels'"
    and "list_all P dels" "list_all P dels'" "\<not> P b"
  shows "sent = sent' \<and> a = a' \<and> dels = dels'"
proof -
  from assms(1) have "rev dels @ b # (a # rev sent) = rev dels' @ b # (a' # rev sent')"
    by (metis (no_types, lifting) append.assoc append_Cons append_Nil rev.simps(2) rev_append
        rev_rev_ident same_append_eq)
  from delete_suffix_unique[OF this, of P] assms(2-4) show ?thesis by simp
qed


lemma fetch_try_success_log:
  assumes "fetch_try env R h now c lg = (Inr u, c', lg')"
  shows "\<exists>sent rid dels respP run respM msgs d res.
           lg' = lg @ sent @ [GetRun (threadId c') rid, GetMessages (threadId c')] @ dels
           \<and> list_all deletes_file dels
           \<and> R (lg @ sent @ [GetRun (threadId c') rid]) = Inr respP \<and> ok respP
           \<and> resp_json respP = Inr run
           \<and> get_prop run ''status'' = Inr (Some (JStr ''completed''))
           \<and> R (lg @ sent @ [GetRun (threadId c') rid, GetMessages (threadId c')]) = Inr respM
           \<and> ok respM \<and> resp_json respM = Inr msgs \<and> get_prop msgs ''data'' = Inr d
           \<and> formattedResponse c now run (opt_index0 d) = Inr res
           \<and> lastResponse c' = Some res"
  using assms
proof (cases rule: fetch_try_elim)
  case (success up lg1 a c2 lg2 t c3 lg3 run lg4 msg lg5 res)
  let ?T = "\<lambda>q::request. True"
  have "sends_only ?T lg lg1" using upload_step_sends[of ?T] success(1) by blast
  moreover have "sends_only ?T lg1 lg2"
    using getOrCreateAssistant_sends[OF success(2), of ?T] by blast
  moreover have "sends_only ?T lg2 lg3"
    using getOrCreateThread_sends[OF success(3), of ?T] by blast
  ultimately have "sends_only ?T lg lg3" by (blast intro: sends_only_trans)
  then obtain pre where pre: "lg3 = lg @ pre" by (auto simp: sends_only_iff)
  have tid: "threadId c3 = threadId c'" using success(7) by simp
  have dep: "deploymentName c3 = deploymentName c"
    using getOrCreateAssistant_frame[OF success(2)] getOrCreateThread_frame[OF success(3)] by simp
  from runAssistant_success[OF success(4)] obtain mid rid respP where
    r: "lg4 = lg3 @ mid @ [GetRun (threadId c3) rid]" "R lg4 = Inr respP" "ok respP"
       "resp_json respP = Inr run" "get_prop run ''status'' = Inr (Some (JStr ''completed''))"
    by blast
  from getMessages_success[OF success(5)] obtain respM msgs d where
    m: "lg5 = lg4 @ [GetMessages (threadId c3)]" "R lg5 = Inr respM" "ok respM"
       "resp_json respM = Inr msgs" "get_prop msgs ''data'' = Inr d" "msg = opt_index0 d"
    by blast
  have "formattedResponse c now run msg = formattedResponse c3 now run msg"
    using dep by (simp add: formattedResponse_def split: sum.splits)
  then have f: "formattedResponse c now run (opt_index0 d) = Inr res"
    using success(6) m(6) by simp
  have l: "lastResponse c' = Some res" using success(7) by simp
  have dels: "list_all deletes_file (map (\<lambda>f. DeleteFile (uf_id f)) up)"
    by (simp add: list_all_iff deletes_file_def)
  show ?thesis
    by (intro exI[of _ "pre @ mid"] exI[of _ rid] exI[of _ "map (\<lambda>f. DeleteFile (uf_id f)) up"]
          exI[of _ respP] exI[of _ run] exI[of _ respM] exI[of _ msgs] exI[of _ d] exI[of _ res])
       (use pre tid r m f l dels success(8) in simp)
qed simp_all


text \<open>What the stored role and content are for the shapes of the message list.\<close>

lemma reply_shapes:
  assumes "get_prop msgs ''data'' = Inr d"
    and "cm_role cm = coalesce (opt_prop (opt_index0 d) ''role'') (JStr ''assistant'')"
    and "cm_content cm = contentValue (opt_index0 d)"
  shows "(\<forall>mk mkv more.
            msgs = JObj mk \<and> map_of mk ''data'' = Some (JArr (JObj mkv # more)) \<longrightarrow>
              (\<forall>r. map_of mkv ''role'' = Some r \<and> r \<noteq> JNull \<longrightarrow> cm_role cm = r)
              \<and> (map_of mkv ''role'' = None \<or> map_of mkv ''role'' = Some JNull \<longrightarrow>
                   cm_role cm = JStr ''assistant'')
              \<and> (\<forall>part parts t v.
                     map_of mkv ''content'' = Some (JArr (JObj part # parts))
                     \<and> map_of part ''text'' = Some (JObj t)
                     \<and> map_of t ''value'' = Some v \<and> v \<noteq> JNull \<longrightarrow>
                     cm_content cm = v)
              \<and> (\<forall>s. map_of mkv ''content'' = Some (JStr s) \<longrightarrow> cm_content cm = JStr s)
              \<and> (map_of mkv ''content'' = None \<or> map_of mkv ''content'' = Some JNull \<longrightarrow>
                   cm_content cm = JStr []))
         \<and> (\<forall>mk. msgs = JObj mk
                  \<and> (map_of mk ''data'' = None \<or> map_of mk ''data'' = Some (JArr [])) \<longrightarrow>
                cm_role cm = JStr ''assistant'' \<and> cm_content cm = JStr [])"
proof -
  have d: "d = map_of mk ''data''" if "msgs = JObj mk" for mk
    using assms(1) that by simp
  have first: "cm_role cm = coalesce (map_of mkv ''role'') (JStr ''assistant'')
               \<and> cm_content cm = contentValue (Some (JObj mkv))"
    if "msgs = JObj mk" "map_of mk ''data'' = Some (JArr (JObj mkv # more))" for mk mkv more
    using assms(2,3) d[OF that(1)] that(2) by simp
  have struct: "contentValue (Some (JObj mkv)) = v"
    if "map_of mkv ''content'' = Some (JArr (JObj part # parts))"
      "map_of part ''text'' = Some (JObj t)" "map_of t ''value'' = Some v" "v \<noteq> JNull"
    for mkv part parts t v
    using that by (simp add: contentValue_def coalesce_def)
  have plain: "contentValue (Some (JObj mkv)) = JStr s"
    if "map_of mkv ''content'' = Some (JStr s)" for mkv s
    using that by (cases s) (simp_all add: contentValue_def coalesce_def)
  have absent: "contentValue (Some (JObj mkv)) = JStr []"
    if "map_of mkv ''content'' = None \<or> map_of mkv ''content'' = Some JNull" for mkv
    using that by (auto simp: contentValue_def coalesce_def)
  have none: "cm_role cm = JStr ''assistant'' \<and> cm_content cm = JStr []"
    if "msgs = JObj mk" "map_of mk ''data'' = None \<or> map_of mk ''data'' = Some (JArr [])" for mk
    using assms(2,3) d[OF that(1)] that(2) by (auto simp: contentValue_def coalesce_def)
  show ?thesis
  proof (intro conjI allI impI; (elim conjE)?)
    fix mk mkv more r
    assume "msgs = JObj mk" "map_of mk ''data'' = Some (JArr (JObj mkv # more))"
      "map_of mkv ''role'' = Some r" "r \<noteq> JNull"
    then show "cm_role cm = r" using first by (simp add: coalesce_def)
  next
    fix mk mkv more
    assume "msgs = JObj mk" "map_of mk ''data'' = Some (JArr (JObj mkv # more))"
      "map_of mkv ''role'' = None \<or> map_of mkv ''role'' = Some JNull"
    then show "cm_role cm = JStr ''assistant''" using first by (auto simp: coalesce_def)
  next
    fix mk mkv more part parts t v
    assume "msgs = JObj mk" "map_of mk ''data'' = Some (JArr (JObj mkv # more))"
      "map_of mkv ''content'' = Some (JArr (JObj part # parts))"
      "map_of part ''text'' = Some (JObj t)" "map_of t ''value'' = Some v" "v \<noteq> JNull"
    then show "cm_content cm = v" using first struct by simp
  next
    fix mk mkv more s
    assume "msgs = JObj mk" "map_of mk ''data'' = Some (JArr (JObj mkv # more))"
      "map_of mkv ''content'' = Some (JStr s)"
    then show "cm_content cm = JStr s" using first plain by simp
  next
    fix mk mkv more
    assume "msgs = JObj mk" "map_of mk ''data'' = Some (JArr (JObj mkv # more))"
      "map_of mkv ''content'' = None \<or> map_of mkv ''content'' = Some JNull"
    then show "cm_content cm = JStr []" using first absent by simp
  next
    fix mk
    assume "msgs = JObj mk" "map_of mk ''data'' = None \<or> map_of mk ''data'' = Some (JArr [])"
    then show "cm_role cm = JStr ''assistant''" using none by blast
  next
    fix mk
    assume "msgs = JObj mk" "map_of mk ''data'' = None \<or> map_of mk ''data'' = Some (JArr [])"
    then show "cm_content cm = JStr []" using none by blast
  qed
qed

text \<open>
  C9: after a successful \<^verbatim>\<open>fetch()\<close> the request log of this call ends with the last
  status poll, the message fetch and then only the deletions of the uploaded files. The
  stored result has one choice with index 0, whose \<^verbatim>\<open>finish_reason\<close> is the constant
  \<^verbatim>\<open>stop\<close>, whatever the remote reported; its \<^verbatim>\<open>id\<close> is the \<^verbatim>\<open>id\<close> of the run
  object that the remote returned to that last poll (the one with status
  \<^verbatim>\<open>completed\<close>), and its model is the client's deployment name. The role and the
  content are those of the first message in the remote's answer to that message fetch:
  the role is the message's role, or \<^verbatim>\<open>assistant\<close> when it has none; the content is
  the text value of the first content part when the content is structured, the content
  itself when it is a string, and the empty string when the message has no content or
  the answer has no message.
\<close>

theorem successful_fetch_materializes_result:
  assumes "fetch env R h now c lg = (Inr u, c', lg')"
  shows "(\<exists>sent rid dels.
            lg' = lg @ sent @ [GetRun (threadId c') rid, GetMessages (threadId c')] @ dels
            \<and> list_all deletes_file dels)
         \<and> (\<forall>sent rid dels.
              lg' = lg @ sent @ [GetRun (threadId c') rid, GetMessages (threadId c')] @ dels
              \<and> list_all deletes_file dels \<longrightarrow>
              (\<exists>res ch respP rkvs respM msgs.
                 lastResponse c' = Some res \<and> choices res = [ch]
                 \<and> choice_index ch = 0 \<and> finish_reason ch = ''stop''
                 \<and> cr_object res = ''chat.completion'' \<and> created res = now
                 \<and> model res = deploymentName c
                 \<and> R (lg @ sent @ [GetRun (threadId c') rid]) = Inr respP \<and> ok respP
                 \<and> resp_json respP = Inr (JObj rkvs)
                 \<and> map_of rkvs ''status'' = Some (JStr ''completed'')
                 \<and> cr_id res = map_of rkvs ''id''
                 \<and> R (lg @ sent @ [GetRun (threadId c') rid, GetMessages (threadId c')]) = Inr respM
                 \<and> ok respM \<and> resp_json respM = Inr msgs
                 \<and> (\<exists>d. get_prop msgs ''data'' = Inr d
                        \<and> cm_role (choice_message ch) =
                            coalesce (opt_prop (opt_index0 d) ''role'') (JStr ''assistant'')
                        \<and> cm_content (choice_message ch) = contentValue (opt_index0 d))
                 \<and> (\<forall>mk mkv more.
                        msgs = JObj mk \<and> map_of mk ''data'' = Some (JArr (JObj mkv # more)) \<longrightarrow>
                          (\<forall>r. map_of mkv ''role'' = Some r \<and> r \<noteq> JNull \<longrightarrow>
                                cm_role (choice_message ch) = r)
                          \<and> (map_of mkv ''role'' = None \<or> map_of mkv ''role'' = Some JNull \<longrightarrow>
                               cm_role (choice_message ch) = JStr ''assistant'')
                          \<and> (\<forall>part parts t v.
                                 map_of mkv ''content'' = Some (JArr (JObj part # parts))
                                 \<and> map_of part ''text'' = Some (JObj t)
                                 \<and> map_of t ''value'' = Some v \<and> v \<noteq> JNull \<longrightarrow>
                                 cm_content (choice_message ch) = v)
                          \<and> (\<forall>s. map_of mkv ''content'' = Some (JStr s) \<longrightarrow>
                                 cm_content (choice_message ch) = JStr s)
                          \<and> (map_of mkv ''content'' = None
                               \<or> map_of mkv ''content'' = Some JNull \<longrightarrow>
                               cm_content (choice_message ch) = JStr []))
                 \<and> (\<forall>mk. msgs = JObj mk
                          \<and> (map_of mk ''data'' = None \<or> map_of mk ''data'' = Some (JArr [])) \<longrightarrow>
                        cm_role (choice_message ch) = JStr ''assistant''
                        \<and> cm_content (choice_message ch) = JStr [])))"
proof -
  let ?G = "\<lambda>rid. GetRun (threadId c') rid" and ?M = "GetMessages (threadId c')"
  from fetch_from_try[OF assms] have "fetch_try env R h now c lg = (Inr u, c', lg')"
    by auto
  from fetch_try_success_log[OF this] obtain sent0 rid0 dels0 respP run respM msgs d res where
    lg': "lg' = lg @ sent0 @ [?G rid0, ?M] @ dels0" and dels0: "list_all deletes_file dels0"
    and p: "R (lg @ sent0 @ [?G rid0]) = Inr respP" "ok respP" "resp_json respP = Inr run"
      "get_prop run ''status'' = Inr (Some (JStr ''completed''))"
    and m: "R (lg @ sent0 @ [?G rid0, ?M]) = Inr respM" "ok respM" "resp_json respM = Inr msgs"
      "get_prop msgs ''data'' = Inr d"
    and f: "formattedResponse c now run (opt_index0 d) = Inr res"
    and l: "lastResponse c' = Some res"
    by blast
  from completed_run_object[OF p(4)] obtain rkvs where
    run: "run = JObj rkvs" "map_of rkvs ''status'' = Some (JStr ''completed'')"
      "get_prop run ''id'' = Inr (map_of rkvs ''id'')"
    by blast
  define ch where "ch =
    \<lparr>choice_index = 0,
     choice_message =
       \<lparr>cm_role = coalesce (opt_prop (opt_index0 d) ''role'') (JStr ''assistant''),
        cm_content = contentValue (opt_index0 d)\<rparr>,
     finish_reason = ''stop''\<rparr>"
  from f run(3) have reseq: "res = \<lparr>cr_id = map_of rkvs ''id'', cr_object = ''chat.completion'',
      created = now, model = deploymentName c, choices = [ch]\<rparr>"
    by (simp add: formattedResponse_def ch_def)
  have res: "choices res = [ch]" "choice_index ch = 0" "finish_reason ch = ''stop''"
      "cr_object res = ''chat.completion''" "created res = now" "model res = deploymentName c"
      "cr_id res = map_of rkvs ''id''"
    by (simp_all add: reseq ch_def)
  have role: "cm_role (choice_message ch) =
      coalesce (opt_prop (opt_index0 d) ''role'') (JStr ''assistant'')"
    and content: "cm_content (choice_message ch) = contentValue (opt_index0 d)"
    by (simp_all add: ch_def)
  note shapes = reply_shapes[OF m(4) role content]
  have gen: "\<exists>d. get_prop msgs ''data'' = Inr d
                        \<and> cm_role (choice_message ch) =
                            coalesce (opt_prop (opt_index0 d) ''role'') (JStr ''assistant'')
                        \<and> cm_content (choice_message ch) = contentValue (opt_index0 d)"
    using m(4) role content by blast
  have pj: "resp_json respP = Inr (JObj rkvs)" using p(3) run(1) by simp
  have body: "\<exists>res ch respP rkvs respM msgs.
                 lastResponse c' = Some res \<and> choices res = [ch]
                 \<and> choice_index ch = 0 \<and> finish_reason ch = ''stop''
                 \<and> cr_object res = ''chat.completion'' \<and> created res = now
                 \<and> model res = deploymentName c
                 \<and> R (lg @ sent0 @ [?G rid0]) = Inr respP \<and> ok respP
                 \<and> resp_json respP = Inr (JObj rkvs)
                 \<and> map_of rkvs ''status'' = Some (JStr ''completed'')
                 \<and> cr_id res = map_of rkvs ''id''
                 \<and> R (lg @ sent0 @ [?G rid0, ?M]) = Inr respM
                 \<and> ok respM \<and> resp_json respM = Inr msgs
                 \<and> (\<exists>d. get_prop msgs ''data'' = Inr d
                        \<and> cm_role (choice_message ch) =
                            coalesce (opt_prop (opt_index0 d) ''role'') (JStr ''assistant'')
                        \<and> cm_content (choice_message ch) = contentValue (opt_index0 d))
                 \<and> (\<forall>mk mkv more.
                        msgs = JObj mk \<and> map_of mk ''data'' = Some (JArr (JObj mkv # more)) \<longrightarrow>
                          (\<forall>r. map_of mkv ''role'' = Some r \<and> r \<noteq> JNull \<longrightarrow>
                                cm_role (choice_message ch) = r)
                          \<and> (map_of mkv ''role'' = None \<or> map_of mkv ''role'' = Some JNull \<longrightarrow>
                               cm_role (choice_message ch) = JStr ''assistant'')
                          \<and> (\<forall>part parts t v.
                                 map_of mkv ''content'' = Some (JArr (JObj part # parts))
                                 \<and> map_of part ''text'' = Some (JObj t)
                                 \<and> map_of t ''value'' = Some v \<and> v \<noteq> JNull \<longrightarrow>
                                 cm_content (choice_message ch) = v)
                          \<and> (\<forall>s. map_of mkv ''content'' = Some (JStr s) \<longrightarrow>
                                 cm_content (choice_message ch) = JStr s)
                          \<and> (map_of mkv ''content'' = None
                               \<or> map_of mkv ''content'' = Some JNull \<longrightarrow>
                               cm_content (choice_message ch) = JStr []))
                 \<and> (\<forall>mk. msgs = JObj mk
                          \<and> (map_of mk ''data'' = None \<or> map_of mk ''data'' = Some (JArr [])) \<longrightarrow>
                        cm_role (choice_message ch) = JStr ''assistant''
                        \<and> cm_content (choice_message ch) = JStr [])"
    apply (rule exI[of _ res], rule exI[of _ ch], rule exI[of _ respP], rule exI[of _ rkvs],
        rule exI[of _ respM], rule exI[of _ msgs])
    apply (insert l res p(1,2) pj run(2) m(1,2,3) gen shapes[THEN conjunct1]
        shapes[THEN conjunct2])
    apply (intro conjI; assumption)
    done
  have uniq: "sent = sent0 \<and> rid = rid0"
    if "lg' = lg @ sent @ [?G rid, ?M] @ dels" "list_all deletes_file dels" for sent rid dels
  proof -
    from that(1) lg' have "lg @ sent @ [?G rid, ?M] @ dels = lg @ sent0 @ [?G rid0, ?M] @ dels0"
      by simp
    from run_tail_unique[OF this, of deletes_file] that(2) dels0 show ?thesis
      by (simp add: deletes_file_def)
  qed
  from lg' dels0 body uniq show ?thesis
    by blast
qed


theorem successful_fetch_materializes_result_witness:
  "(case lastResponse (fst (snd demo_first)) of
      None \<Rightarrow> []
    | Some res \<Rightarrow>
        [(cr_id res, model res,
          map (\<lambda>ch. (finish_reason ch, cm_role (choice_message ch),
                     cm_content (choice_message ch))) (choices res))]) =
   [(Some (JStr ''run-1''), ''gpt-4o-mini'', [(''stop'', JStr ''assistant'', JStr ''42'')])]"
proof -
  let ?sent = "[PostAssistant ''gpt-4o-mini'' (Some ''Be brief.'') (Some 0.7),
       PostThread [\<lparr>tm_role = Some ''user'', tm_content = Some ''What is 6 times 7?'',
                    attachments = None\<rparr>],
       PostRun (Some (JStr ''thread-1'')) (Some (JStr ''asst-1''))]"
  let ?c' = "fst (snd demo_first)"
  have run: "fetch demo_env demo_remote demo_heap 1700000000 demo_started [] =
          (Inr (), ?c', snd (snd demo_first))"
    using demo_first_value by (simp add: demo_first_def)
  have tid: "threadId ?c' = Some (JStr ''thread-1'')"
    by (simp add: demo_first_value)
  have dec: "snd (snd demo_first) =
               [] @ ?sent @ [GetRun (threadId ?c') (Some (JStr ''run-1'')),
                             GetMessages (threadId ?c')] @ []
             \<and> list_all deletes_file []"
    by (simp add: demo_first_value)
  from successful_fetch_materializes_result[OF run, THEN conjunct2, rule_format, OF dec]
  obtain res ch respP rkvs respM msgs where
    l: "lastResponse ?c' = Some res" "choices res = [ch]" "finish_reason ch = ''stop''"
      "model res = deploymentName demo_started"
    and p: "demo_remote ([] @ ?sent @ [GetRun (threadId ?c') (Some (JStr ''run-1''))]) = Inr respP"
      "resp_json respP = Inr (JObj rkvs)" "cr_id res = map_of rkvs ''id''"
    and m: "demo_remote ([] @ ?sent @ [GetRun (threadId ?c') (Some (JStr ''run-1'')),
                                      GetMessages (threadId ?c')]) = Inr respM"
      "resp_json respM = Inr msgs"
    and shapes: "\<forall>mk mkv more.
                        msgs = JObj mk \<and> map_of mk ''data'' = Some (JArr (JObj mkv # more)) \<longrightarrow>
                          (\<forall>r. map_of mkv ''role'' = Some r \<and> r \<noteq> JNull \<longrightarrow>
                                cm_role (choice_message ch) = r)
                          \<and> (map_of mkv ''role'' = None \<or> map_of mkv ''role'' = Some JNull \<longrightarrow>
                               cm_role (choice_message ch) = JStr ''assistant'')
                          \<and> (\<forall>part parts t v.
                                 map_of mkv ''content'' = Some (JArr (JObj part # parts))
                                 \<and> map_of part ''text'' = Some (JObj t)
                                 \<and> map_of t ''value'' = Some v \<and> v \<noteq> JNull \<longrightarrow>
                                 cm_content (choice_message ch) = v)
                          \<and> (\<forall>s. map_of mkv ''content'' = Some (JStr s) \<longrightarrow>
                                 cm_content (choice_message ch) = JStr s)
                          \<and> (map_of mkv ''content'' = None
                               \<or> map_of mkv ''content'' = Some JNull \<longrightarrow>
                               cm_content (choice_message ch) = JStr [])"
    by blast
  from p have id: "cr_id res = Some (JStr ''run-1'')"
    by (auto simp: demo_remote_def demo_answer_def ok_json_def)
  from m have msgs: "msgs = JObj [(''data'',
            JArr [JObj [(''role'', JStr ''assistant''),
                        (''content'', JArr [JObj [(''text'', JObj [(''value'', JStr ''42'')])]])]])]"
    by (auto simp: demo_remote_def demo_answer_def ok_json_def)
  note sh = shapes[rule_format, of "[(''data'',
            JArr [JObj [(''role'', JStr ''assistant''),
                        (''content'', JArr [JObj [(''text'', JObj [(''value'', JStr ''42'')])]])]])]"
            "[(''role'', JStr ''assistant''),
              (''content'', JArr [JObj [(''text'', JObj [(''value'', JStr ''42'')])]])]" "[]"]
  have role: "cm_role (choice_message ch) = JStr ''assistant''"
    using sh[THEN conjunct1, rule_format, of "JStr ''assistant''"] msgs by simp
  have content: "cm_content (choice_message ch) = JStr ''42''"
    using sh[THEN conjunct2, THEN conjunct2, THEN conjunct1, rule_format,
        of "[(''text'', JObj [(''value'', JStr ''42'')])]" "[]" "[(''value'', JStr ''42'')]"
          "JStr ''42''"] msgs
    by simp
  have model: "model res = ''gpt-4o-mini''"
    using l(4) by (simp add: demo_started_value demo_client_def)
  show ?thesis
    using l(1,2,3) id role content model by simp
qed

section \<open>The messages of a new thread\<close>

text \<open>The thread gets the stored messages without the system messages, in order.\<close>

lemma threadMessages_drops_system:
  "map (\<lambda>m. (tm_role m, tm_content m)) (threadMessages h c up) =
   map (\<lambda>msg. (role (h msg), content (h msg)))
     (filter (\<lambda>msg. role (h msg) \<noteq> Some ''system'') (messages c))"
  by (simp add: threadMessages_def comp_def)

lemma find_user_role:
  "find (\<lambda>m. role (h m) = Some ''user'') ms = Some msg \<Longrightarrow> role (h msg) = Some ''user''"
  by (induction ms) (auto split: if_splits)

lemma threadMessages_attachments:
  "map attachments (threadMessages h c up) =
   map (\<lambda>msg. if up \<noteq> [] \<and> Some msg = find (\<lambda>m. role (h m) = Some ''user'') (messages c)
              then Some (map uf_id up) else None)
     (filter (\<lambda>msg. role (h msg) \<noteq> Some ''system'') (messages c))"
proof -
  have u: "role (h msg) = Some ''user''"
    if "Some msg = find (\<lambda>m. role (h m) = Some ''user'') (messages c)" for msg
    using find_user_role[of h "messages c" msg] that by simp
  have "attachments \<lparr>tm_role = role (h msg), tm_content = content (h msg),
                     attachments =
                       if role (h msg) = Some ''user'' \<and> up \<noteq> [] \<and>
                          Some msg = find (\<lambda>m. role (h m) = Some ''user'') (messages c)
                       then Some (map uf_id up) else None\<rparr> =
        (if up \<noteq> [] \<and> Some msg = find (\<lambda>m. role (h m) = Some ''user'') (messages c)
              then Some (map uf_id up) else None)" for msg
    using u[of msg] by simp
  then show ?thesis
    unfolding threadMessages_def map_map comp_def by simp
qed

lemma length_filter_mono:
  "(\<And>x. x \<in> set xs \<Longrightarrow> P x \<Longrightarrow> Q x) \<Longrightarrow> length (filter P xs) \<le> length (filter Q xs)"
  by (induction xs) auto

lemma distinct_filter_eq_le_1: "distinct xs \<Longrightarrow> length (filter (\<lambda>x. Some x = a) xs) \<le> 1"
proof (induction xs)
  case Nil
  then show ?case by simp
next
  case (Cons x xs)
  show ?case
  proof (cases "Some x = a")
    case True
    with Cons.prems have "filter (\<lambda>y. Some y = a) xs = []"
      by (auto simp: filter_empty_conv)
    with True show ?thesis by simp
  next
    case False
    with Cons show ?thesis by simp
  qed
qed

text \<open>
  When the stored message objects are pairwise different, at most one message of the new
  thread carries attachments; by \<open>threadMessages_attachments\<close> it is the first user
  message, and it carries the identifiers of all uploaded files.
\<close>

lemma threadMessages_distinct:
  assumes "distinct (messages c)"
  shows "length (filter (\<lambda>a. a \<noteq> None) (map attachments (threadMessages h c up))) \<le> 1"
proof -
  let ?first = "find (\<lambda>m. role (h m) = Some ''user'') (messages c)"
  let ?kept = "filter (\<lambda>msg. role (h msg) \<noteq> Some ''system'') (messages c)"
  have "length (filter (\<lambda>a. a \<noteq> None) (map attachments (threadMessages h c up)))
        \<le> length (filter (\<lambda>msg. Some msg = ?first) ?kept)"
    unfolding threadMessages_attachments filter_map length_map comp_def
    by (rule length_filter_mono) (simp split: if_splits)
  also have "\<dots> \<le> 1"
    using assms by (intro distinct_filter_eq_le_1) simp
  finally show ?thesis .
qed

text \<open>
  C5, on the client that holds the same user message object twice and one file: the
  thread is created with two messages, and both carry the attachment, because
  \<^verbatim>\<open>msg === this.messages.find(...)\<close> holds for every occurrence of that object.
  The claim asks for the first user message only.
\<close>

theorem attachments_on_repeated_message:
  "messages repeated_client = [1, 1]
   \<and> filter creates_thread (snd (snd repeated_run)) =
       [PostThread
          [\<lparr>tm_role = Some ''user'', tm_content = Some ''What is 6 times 7?'',
            attachments = Some [Some (JStr ''file-1'')]\<rparr>,
           \<lparr>tm_role = Some ''user'', tm_content = Some ''What is 6 times 7?'',
            attachments = Some [Some (JStr ''file-1'')]\<rparr>]]"
  by (simp add: repeated_run_requests creates_thread_def repeated_client_value)

end
